theory Spec2Isabelle
  imports Main "HOL-Library.Sublist"
begin

section \<open>Python values\<close>

text \<open>
  The arguments of the job functions of \<^verbatim>\<open>toil_scripts/tools/preprocessing.py\<close> are
  Python values: \<^verbatim>\<open>None\<close>, booleans, integers (the core count) and strings (file-store
  ids, adapter sequences, memory sizes, samtools flags).
\<close>

datatype pyval = PyNone | PyBool bool | PyInt int | PyStr string

text \<open>Python truthiness, as tested by \<^verbatim>\<open>if r2_id:\<close> and by \<^verbatim>\<open>r1_id and r2_id\<close>.\<close>

fun truthy :: "pyval \<Rightarrow> bool" where
  "truthy PyNone = False"
| "truthy (PyBool b) = b"
| "truthy (PyInt i) = (i \<noteq> 0)"
| "truthy (PyStr s) = (s \<noteq> [])"

definition digit_char :: "nat \<Rightarrow> char" where
  "digit_char d = ''0123456789'' ! d"

text \<open>The decimal numeral of a natural number, as \<^verbatim>\<open>str\<close> prints it.\<close>

fun str_nat :: "nat \<Rightarrow> string" where
  "str_nat n = (if n < 10 then [digit_char n] else str_nat (n div 10) @ [digit_char (n mod 10)])"

declare str_nat.simps [simp del]

definition str_int :: "int \<Rightarrow> string" where
  "str_int i = (if i < 0 then CHR ''-'' # str_nat (nat (- i)) else str_nat (nat i))"

text \<open>\<^verbatim>\<open>str(x)\<close>, which is also what \<^verbatim>\<open>'{}'.format(x)\<close> inserts.\<close>

fun py_str :: "pyval \<Rightarrow> string" where
  "py_str PyNone = ''None''"
| "py_str (PyBool b) = (if b then ''True'' else ''False'')"
| "py_str (PyInt i) = str_int i"
| "py_str (PyStr s) = s"

text \<open>\<^verbatim>\<open>os.path.join(a, b)\<close> on a POSIX host.\<close>

definition os_path_join :: "string \<Rightarrow> string \<Rightarrow> string" where
  "os_path_join a b =
     (if b \<noteq> [] \<and> hd b = CHR ''/'' then b
      else if a = [] \<or> last a = CHR ''/'' then a @ b
      else a @ ''/'' @ b)"

section \<open>The collaborators: file store, local disk, container invocation\<close>

type_synonym data = string

text \<open>
  The keyword arguments a wrapper hands to \<^verbatim>\<open>docker_call\<close>. An argument the wrapper does
  not pass is \<open>None\<close>; a dict literal is the list of its items in source order.
\<close>

record docker_args =
  call_tool :: string
  call_work_dir :: string
  call_parameters :: "pyval list"
  call_inputs :: "string list option"
  call_outputs :: "(string \<times> pyval) list option"
  call_env :: "(string \<times> string) list option"
  call_mock :: "bool option"

datatype event =
    LogToMaster string
  | GetLocalTempDir
  | ReadGlobalFile pyval string
  | DockerCall docker_args
  | WriteGlobalFile string

datatype error =
    ConfigurationError string
  | FileStoreError pyval
  | LocalFileError string
  | ToolError

text \<open>
  The world a job function runs in: the global file store (handle and content, in the
  order of creation), the files of the local disk, the number of temporary directories
  handed out, and the calls made to the collaborators so far. The file store belongs to
  the workflow engine; its operations below follow section 6 of the specification
  (\<^verbatim>\<open>readGlobalFile(handle, path)\<close>, \<^verbatim>\<open>writeGlobalFile(path) -> handle\<close>) and section 3
  (a handle is created by a write and never mutated).
\<close>

record world =
  store :: "(string \<times> data) list"
  disk :: "string \<rightharpoonup> data"
  temp_count :: nat
  trace :: "event list"

text \<open>
  What the code cannot know of the host it runs on: the CPU count, the names of the
  temporary directories, and what a container does to the local disk (\<open>None\<close>: it
  exits with a non-zero status).
\<close>

record host =
  cpu_count :: nat
  local_temp_dir :: "nat \<Rightarrow> string"
  container :: "docker_args \<Rightarrow> (string \<rightharpoonup> data) \<Rightarrow> (string \<rightharpoonup> data) option"

type_synonym 'a action = "world \<Rightarrow> (error + 'a) \<times> world"

definition returnM :: "'a \<Rightarrow> 'a action" where
  "returnM x w = (Inr x, w)"

definition raiseM :: "error \<Rightarrow> 'a action" where
  "raiseM e w = (Inl e, w)"

text \<open>Sequencing: an exception ends the job function; the effects so far remain.\<close>

definition bindM :: "'a action \<Rightarrow> ('a \<Rightarrow> 'b action) \<Rightarrow> 'b action" where
  "bindM m f w = (case m w of (Inl e, w') \<Rightarrow> (Inl e, w') | (Inr x, w') \<Rightarrow> f x w')"

text \<open>A \<^verbatim>\<open>for\<close> loop over a list, running the body for its effect.\<close>

fun for_each :: "'a list \<Rightarrow> ('a \<Rightarrow> 'b action) \<Rightarrow> unit action" where
  "for_each [] body = returnM ()"
| "for_each (x # xs) body = bindM (body x) (\<lambda>_. for_each xs body)"

definition record_call :: "event \<Rightarrow> world \<Rightarrow> world" where
  "record_call ev w = w\<lparr>trace := trace w @ [ev]\<rparr>"

text \<open>A handle no entry of the store has: longer than every handle in use.\<close>

definition fresh_id :: "(string \<times> data) list \<Rightarrow> string" where
  "fresh_id st = replicate (Suc (foldr max (map (\<lambda>e. length (fst e)) st) 0)) CHR ''f''"

text \<open>\<^verbatim>\<open>job.fileStore.logToMaster(msg)\<close>\<close>

definition logToMaster :: "string \<Rightarrow> unit action" where
  "logToMaster msg w = (Inr (), record_call (LogToMaster msg) w)"

text \<open>\<^verbatim>\<open>job.fileStore.getLocalTempDir()\<close>\<close>

definition getLocalTempDir :: "host \<Rightarrow> string action" where
  "getLocalTempDir H w =
     (Inr (local_temp_dir H (temp_count w)),
      (record_call GetLocalTempDir w)\<lparr>temp_count := Suc (temp_count w)\<rparr>)"

text \<open>
  \<^verbatim>\<open>job.fileStore.readGlobalFile(handle, path)\<close>: copies the content of the handle to the
  local path; a value that is not a handle of the store raises.
\<close>

definition readGlobalFile :: "pyval \<Rightarrow> string \<Rightarrow> string action" where
  "readGlobalFile fid path w =
     (let w1 = record_call (ReadGlobalFile fid path) w in
      case fid of
        PyStr h \<Rightarrow>
          (case map_of (store w) h of
             None \<Rightarrow> (Inl (FileStoreError fid), w1)
           | Some d \<Rightarrow> (Inr path, w1\<lparr>disk := (disk w)(path \<mapsto> d)\<rparr>))
      | _ \<Rightarrow> (Inl (FileStoreError fid), w1))"

text \<open>
  \<^verbatim>\<open>job.fileStore.writeGlobalFile(path) -> handle\<close>: stores the content of the local
  file under a new handle; a missing local file raises.
\<close>

definition writeGlobalFile :: "string \<Rightarrow> pyval action" where
  "writeGlobalFile path w =
     (let w1 = record_call (WriteGlobalFile path) w in
      case disk w path of
        None \<Rightarrow> (Inl (LocalFileError path), w1)
      | Some d \<Rightarrow>
          (let h = fresh_id (store w) in (Inr (PyStr h), w1\<lparr>store := store w @ [(h, d)]\<rparr>)))"

text \<open>
  Modelled from the spec: \<^verbatim>\<open>toil_scripts.lib.programs.docker_call\<close> is not part of the
  source at hand. Section 6 of the specification describes it as the container-invocation
  facility \<^verbatim>\<open>invoke(tool_image, args, env, working_dir, declared_outputs) -> exit_status\<close>,
  and section 5 as blocking: one invocation runs to completion before the call returns. A
  non-zero exit propagates as an exception (section 7). What the container does to the
  local disk is the host's \<open>container\<close>.
\<close>

definition docker_call :: "host \<Rightarrow> docker_args \<Rightarrow> unit action" where
  "docker_call H args w =
     (let w1 = record_call (DockerCall args) w in
      case container H args (disk w) of
        None \<Rightarrow> (Inl ToolError, w1)
      | Some d' \<Rightarrow> (Inr (), w1\<lparr>disk := d'\<rparr>))"

text \<open>
  Modelled from the spec: \<^verbatim>\<open>toil_scripts.lib.require\<close> is not part of the source at
  hand. Section 7 of the specification: the precondition it checks, when violated, "fails
  immediately with a configuration error".
\<close>

definition require :: "pyval \<Rightarrow> string \<Rightarrow> unit action" where
  "require expression message =
     (if truthy expression then returnM () else raiseM (ConfigurationError message))"

text \<open>The calls a job function made, and among them the container invocations.\<close>

definition events_since :: "world \<Rightarrow> world \<Rightarrow> event list" where
  "events_since w w' = drop (length (trace w)) (trace w')"

fun invocations_of :: "event list \<Rightarrow> docker_args list" where
  "invocations_of [] = []"
| "invocations_of (DockerCall a # evs) = a # invocations_of evs"
| "invocations_of (_ # evs) = invocations_of evs"

section \<open>The wrappers\<close>

definition cutadapt_image :: string where
  "cutadapt_image = ''quay.io/ucsc_cgl/cutadapt:1.9--6bd44edd2b8f8f17e25c5a268fedaab65fa851d2''"

definition samtools_0_1_19_image :: string where
  "samtools_0_1_19_image =
     ''quay.io/ucsc_cgl/samtools:0.1.19--dd5ac549b95eb3e5d166a5e310417ef13651994e''"

definition samtools_1_3_image :: string where
  "samtools_1_3_image =
     ''quay.io/ucsc_cgl/samtools:1.3--256539928ea162949d8a65ca5c79a72ef557ce7c''"

definition picardtools_image :: string where
  "picardtools_image =
     ''quay.io/ucsc_cgl/picardtools:1.95--dd5ac549b95eb3e5d166a5e310417ef13651994e''"

definition gatk_image :: string where
  "gatk_image = ''quay.io/ucsc_cgl/gatk:3.5--dba6dae49156168a909c43330350c6161dc7ecc2''"

text \<open>\<^verbatim>\<open>run_cutadapt(job, r1_id, r2_id, fwd_3pr_adapter, rev_3pr_adapter)\<close>\<close>

definition run_cutadapt ::
  "host \<Rightarrow> pyval \<Rightarrow> pyval \<Rightarrow> pyval \<Rightarrow> pyval \<Rightarrow> (pyval \<times> pyval) action" where
  "run_cutadapt H r1_id r2_id fwd_3pr_adapter rev_3pr_adapter =
     bindM (getLocalTempDir H) (\<lambda>work_dir.
     bindM (if truthy r2_id
            then require rev_3pr_adapter
                   ''Paired end data requires a reverse 3' adapter sequence.''
            else returnM ()) (\<lambda>_.
     let parameters = [PyStr ''-a'', fwd_3pr_adapter,
                       PyStr ''-m'', PyStr ''35'']
     in
     bindM (if truthy r1_id \<and> truthy r2_id
            then
              bindM (readGlobalFile r1_id (os_path_join work_dir ''R1.fastq'')) (\<lambda>_.
              bindM (readGlobalFile r2_id (os_path_join work_dir ''R2.fastq'')) (\<lambda>_.
              returnM (parameters @ [PyStr ''-A'', rev_3pr_adapter,
                                     PyStr ''-o'', PyStr ''/data/R1_cutadapt.fastq'',
                                     PyStr ''-p'', PyStr ''/data/R2_cutadapt.fastq'',
                                     PyStr ''/data/R1.fastq'', PyStr ''/data/R2.fastq''])))
            else
              bindM (readGlobalFile r1_id (os_path_join work_dir ''R1.fastq'')) (\<lambda>_.
              returnM (parameters @ [PyStr ''-o'', PyStr ''/data/R1.fastq'',
                                     PyStr ''/data/R1.fastq'']))) (\<lambda>parameters.
     bindM (docker_call H \<lparr>call_tool = cutadapt_image, call_work_dir = work_dir,
                           call_parameters = parameters, call_inputs = None,
                           call_outputs = None, call_env = None, call_mock = None\<rparr>) (\<lambda>_.
     if truthy r1_id \<and> truthy r2_id
     then
       bindM (writeGlobalFile (os_path_join work_dir ''R1_cutadapt.fastq'')) (\<lambda>r1_cut_id.
       bindM (writeGlobalFile (os_path_join work_dir ''R2_cutadapt.fastq'')) (\<lambda>r2_cut_id.
       returnM (r1_cut_id, r2_cut_id)))
     else
       bindM (writeGlobalFile (os_path_join work_dir ''R1_cutadapt.fastq'')) (\<lambda>r1_cut_id.
       returnM (r1_cut_id, PyNone))))))"

text \<open>\<^verbatim>\<open>run_samtools_faidx(job, ref_id, mock=False)\<close>\<close>

definition run_samtools_faidx :: "host \<Rightarrow> pyval \<Rightarrow> bool \<Rightarrow> pyval action" where
  "run_samtools_faidx H ref_id mock =
     bindM (logToMaster ''Created reference index'') (\<lambda>_.
     bindM (getLocalTempDir H) (\<lambda>work_dir.
     bindM (readGlobalFile ref_id (os_path_join work_dir ''ref.fasta'')) (\<lambda>_.
     let command = [PyStr ''faidx'', PyStr ''ref.fasta''];
         outputs = [(''ref.fasta.fai'', PyNone)]
     in
     bindM (docker_call H \<lparr>call_tool = samtools_0_1_19_image, call_work_dir = work_dir,
                           call_parameters = command, call_inputs = None,
                           call_outputs = Some outputs, call_env = None,
                           call_mock = Some mock\<rparr>) (\<lambda>_.
     writeGlobalFile (os_path_join work_dir ''ref.fasta.fai'')))))"

text \<open>\<^verbatim>\<open>run_samtools_index(job, bam_id)\<close>\<close>

definition run_samtools_index :: "host \<Rightarrow> pyval \<Rightarrow> pyval action" where
  "run_samtools_index H bam_id =
     bindM (getLocalTempDir H) (\<lambda>work_dir.
     bindM (readGlobalFile bam_id (os_path_join work_dir ''sample.bam'')) (\<lambda>_.
     let parameters = [PyStr ''index'', PyStr ''/data/sample.bam'']
     in
     bindM (docker_call H \<lparr>call_tool = samtools_0_1_19_image, call_work_dir = work_dir,
                           call_parameters = parameters, call_inputs = None,
                           call_outputs = None, call_env = None, call_mock = None\<rparr>) (\<lambda>_.
     writeGlobalFile (os_path_join work_dir ''sample.bam.bai''))))"

text \<open>The default of the parameter \<^verbatim>\<open>flag\<close> of \<^verbatim>\<open>samtools_view\<close>.\<close>

definition samtools_view_flag_default :: pyval where
  "samtools_view_flag_default = PyStr ''0''"

text \<open>
  \<^verbatim>\<open>samtools_view(job, bam_id, flag='0', mock=False)\<close>;
  \<^verbatim>\<open>multiprocessing.cpu_count()\<close> is the host's \<open>cpu_count\<close>.
\<close>

definition samtools_view :: "host \<Rightarrow> pyval \<Rightarrow> pyval \<Rightarrow> bool \<Rightarrow> pyval action" where
  "samtools_view H bam_id flag mock =
     bindM (getLocalTempDir H) (\<lambda>work_dir.
     bindM (readGlobalFile bam_id (os_path_join work_dir ''sample.bam'')) (\<lambda>_.
     let outputs = [(''sample.output.bam'', PyNone)];
         outpath = os_path_join work_dir ''sample.output.bam'';
         cores = cpu_count H;
         command = [PyStr ''view'',
                    PyStr ''-b'',
                    PyStr ''-o'', PyStr ''/data/sample.output.bam'',
                    PyStr ''-F'', PyStr (py_str flag),
                    PyStr ''-@'', PyStr (str_nat cores),
                    PyStr ''/data/sample.bam'']
     in
     bindM (docker_call H \<lparr>call_tool = samtools_1_3_image, call_work_dir = work_dir,
                           call_parameters = command, call_inputs = None,
                           call_outputs = Some outputs, call_env = None,
                           call_mock = Some mock\<rparr>) (\<lambda>_.
     writeGlobalFile outpath)))"

text \<open>\<^verbatim>\<open>run_picard_create_sequence_dictionary(job, ref_id, xmx='10G', mock=False)\<close>\<close>

definition run_picard_create_sequence_dictionary ::
  "host \<Rightarrow> pyval \<Rightarrow> pyval \<Rightarrow> bool \<Rightarrow> pyval action" where
  "run_picard_create_sequence_dictionary H ref_id xmx mock =
     bindM (logToMaster ''Created reference dictionary'') (\<lambda>_.
     bindM (getLocalTempDir H) (\<lambda>work_dir.
     bindM (readGlobalFile ref_id (os_path_join work_dir ''ref.fasta'')) (\<lambda>_.
     let command = [PyStr ''CreateSequenceDictionary'', PyStr ''R=ref.fasta'',
                    PyStr ''O=ref.dict''];
         outputs = [(''ref.dict'', PyNone)]
     in
     bindM (docker_call H \<lparr>call_tool = picardtools_image, call_work_dir = work_dir,
                           call_parameters = command, call_inputs = None,
                           call_outputs = Some outputs,
                           call_env = Some [(''JAVA_OPTS'', ''-Xmx'' @ py_str xmx)],
                           call_mock = Some mock\<rparr>) (\<lambda>_.
     writeGlobalFile (os_path_join work_dir ''ref.dict'')))))"

text \<open>\<^verbatim>\<open>picard_sort_sam(job, bam_id, xmx='8', mock=False)\<close>\<close>

definition picard_sort_sam :: "host \<Rightarrow> pyval \<Rightarrow> pyval \<Rightarrow> bool \<Rightarrow> (pyval \<times> pyval) action" where
  "picard_sort_sam H bam_id xmx mock =
     bindM (getLocalTempDir H) (\<lambda>work_dir.
     let outputs = [(''sample.sorted.bam'', PyNone), (''sample.sorted.bai'', PyNone)]
     in
     bindM (readGlobalFile bam_id (os_path_join work_dir ''sample.bam'')) (\<lambda>_.
     let outpath_bam = os_path_join work_dir ''sample.sorted.bam'';
         outpath_bai = os_path_join work_dir ''sample.sorted.bai'';
         command = [PyStr ''SortSam'',
                    PyStr ''INPUT=sample.bam'',
                    PyStr ''OUTPUT=sample.sorted.bam'',
                    PyStr ''SORT_ORDER=coordinate'',
                    PyStr ''CREATE_INDEX=true'']
     in
     bindM (docker_call H \<lparr>call_tool = picardtools_image, call_work_dir = work_dir,
                           call_parameters = command, call_inputs = None,
                           call_outputs = Some outputs,
                           call_env = Some [(''JAVA_OPTS'', ''-Xmx'' @ py_str xmx)],
                           call_mock = Some mock\<rparr>) (\<lambda>_.
     bindM (writeGlobalFile outpath_bam) (\<lambda>bam_id.
     bindM (writeGlobalFile outpath_bai) (\<lambda>bai_id.
     returnM (bam_id, bai_id))))))"

text \<open>\<^verbatim>\<open>picard_mark_duplicates(job, bam_id, bai_id, xmx='8G', mock=False)\<close>\<close>

definition picard_mark_duplicates ::
  "host \<Rightarrow> pyval \<Rightarrow> pyval \<Rightarrow> pyval \<Rightarrow> bool \<Rightarrow> (pyval \<times> pyval) action" where
  "picard_mark_duplicates H bam_id bai_id xmx mock =
     bindM (getLocalTempDir H) (\<lambda>work_dir.
     let outputs = [(''sample.mkdups.bam'', PyNone), (''sample.mkdups.bai'', PyNone)];
         outpath_bam = os_path_join work_dir ''sample.mkdups.bam'';
         outpath_bai = os_path_join work_dir ''sample.mkdups.bai''
     in
     bindM (readGlobalFile bam_id (os_path_join work_dir ''sample.sorted.bam'')) (\<lambda>_.
     bindM (readGlobalFile bai_id (os_path_join work_dir ''sample.sorted.bai'')) (\<lambda>_.
     let command = [PyStr ''MarkDuplicates'',
                    PyStr ''INPUT=sample.sorted.bam'',
                    PyStr ''OUTPUT=sample.mkdups.bam'',
                    PyStr ''METRICS_FILE=metrics.txt'',
                    PyStr ''ASSUME_SORTED=true'',
                    PyStr ''CREATE_INDEX=true'']
     in
     bindM (docker_call H \<lparr>call_tool = picardtools_image, call_work_dir = work_dir,
                           call_parameters = command, call_inputs = None,
                           call_outputs = Some outputs,
                           call_env = Some [(''JAVA_OPTS'', ''-Xmx'' @ py_str xmx)],
                           call_mock = Some mock\<rparr>) (\<lambda>_.
     bindM (writeGlobalFile outpath_bam) (\<lambda>bam_id.
     bindM (writeGlobalFile outpath_bai) (\<lambda>bai_id.
     returnM (bam_id, bai_id)))))))"

text \<open>
  \<^verbatim>\<open>run_realigner_target_creator(job, cores, bam, bai, ref, ref_dict, fai, phase, mills,
  mem, unsafe=False, mock=False)\<close>
\<close>

definition run_realigner_target_creator ::
  "host \<Rightarrow> pyval \<Rightarrow> pyval \<Rightarrow> pyval \<Rightarrow> pyval \<Rightarrow> pyval \<Rightarrow> pyval \<Rightarrow> pyval \<Rightarrow> pyval \<Rightarrow> pyval \<Rightarrow>
   bool \<Rightarrow> bool \<Rightarrow> pyval action" where
  "run_realigner_target_creator H cores bam bai ref ref_dict fai phase mills mem unsafe mock =
     bindM (getLocalTempDir H) (\<lambda>work_dir.
     let file_ids = [ref, fai, ref_dict, bam, bai, phase, mills];
         inputs = [''ref.fasta'', ''ref.fasta.fai'', ''ref.dict'', ''sample.bam'',
                   ''sample.bam.bai'', ''phase.vcf'', ''mills.vcf'']
     in
     bindM (for_each (zip file_ids inputs) (\<lambda>(file_store_id, name).
              readGlobalFile file_store_id (os_path_join work_dir name))) (\<lambda>_.
     let parameters = [PyStr ''-T'', PyStr ''RealignerTargetCreator'',
                       PyStr ''-nt'', PyStr (py_str cores),
                       PyStr ''-R'', PyStr ''/data/ref.fasta'',
                       PyStr ''-I'', PyStr ''/data/sample.bam'',
                       PyStr ''-known'', PyStr ''/data/phase.vcf'',
                       PyStr ''-known'', PyStr ''/data/mills.vcf'',
                       PyStr ''--downsampling_type'', PyStr ''NONE'',
                       PyStr ''-o'', PyStr ''/data/sample.intervals''];
         parameters = (if unsafe
                       then parameters @ [PyStr ''-U'', PyStr ''ALLOW_SEQ_DICT_INCOMPATIBILITY'']
                       else parameters)
     in
     bindM (docker_call H \<lparr>call_tool = gatk_image, call_work_dir = work_dir,
                           call_parameters = parameters, call_inputs = Some inputs,
                           call_outputs = Some [(''sample.intervals'', PyNone)],
                           call_env = Some [(''JAVA_OPTS'', ''-Xmx'' @ py_str mem)],
                           call_mock = Some mock\<rparr>) (\<lambda>_.
     writeGlobalFile (os_path_join work_dir ''sample.intervals''))))"

text \<open>
  \<^verbatim>\<open>run_indel_realignment(job, intervals, bam, bai, ref, ref_dict, fai, phase, mills, mem,
  unsafe=False, mock=False)\<close>
\<close>

definition run_indel_realignment ::
  "host \<Rightarrow> pyval \<Rightarrow> pyval \<Rightarrow> pyval \<Rightarrow> pyval \<Rightarrow> pyval \<Rightarrow> pyval \<Rightarrow> pyval \<Rightarrow> pyval \<Rightarrow> pyval \<Rightarrow>
   bool \<Rightarrow> bool \<Rightarrow> (pyval \<times> pyval) action" where
  "run_indel_realignment H intervals bam bai ref ref_dict fai phase mills mem unsafe mock =
     bindM (getLocalTempDir H) (\<lambda>work_dir.
     let file_ids = [ref, fai, ref_dict, intervals, bam, bai, phase, mills];
         inputs = [''ref.fasta'', ''ref.fasta.fai'', ''ref.dict'', ''sample.intervals'',
                   ''sample.bam'', ''sample.bam.bai'', ''phase.vcf'', ''mills.vcf'']
     in
     bindM (for_each (zip file_ids inputs) (\<lambda>(file_store_id, name).
              readGlobalFile file_store_id (os_path_join work_dir name))) (\<lambda>_.
     let parameters = [PyStr ''-T'', PyStr ''IndelRealigner'',
                       PyStr ''-R'', PyStr ''/data/ref.fasta'',
                       PyStr ''-I'', PyStr ''/data/sample.bam'',
                       PyStr ''-known'', PyStr ''/data/phase.vcf'',
                       PyStr ''-known'', PyStr ''/data/mills.vcf'',
                       PyStr ''-targetIntervals'', PyStr ''/data/sample.intervals'',
                       PyStr ''--downsampling_type'', PyStr ''NONE'',
                       PyStr ''-maxReads'', PyStr (py_str (PyInt 720000)),
                       PyStr ''-maxInMemory'', PyStr (py_str (PyInt 5400000)),
                       PyStr ''-o'', PyStr ''/data/sample.indel.bam''];
         parameters = (if unsafe
                       then parameters @ [PyStr ''-U'', PyStr ''ALLOW_SEQ_DICT_INCOMPATIBILITY'']
                       else parameters)
     in
     bindM (docker_call H \<lparr>call_tool = gatk_image, call_work_dir = work_dir,
                           call_parameters = parameters, call_inputs = Some inputs,
                           call_outputs = Some [(''sample.indel.bam'', PyNone),
                                                (''sample.indel.bai'', PyNone)],
                           call_env = Some [(''JAVA_OPTS'', ''-Xmx'' @ py_str mem)],
                           call_mock = Some mock\<rparr>) (\<lambda>_.
     bindM (writeGlobalFile (os_path_join work_dir ''sample.indel.bam'')) (\<lambda>indel_bam.
     bindM (writeGlobalFile (os_path_join work_dir ''sample.indel.bai'')) (\<lambda>indel_bai.
     returnM (indel_bam, indel_bai))))))"

text \<open>
  \<^verbatim>\<open>run_base_recalibration(job, cores, indel_bam, indel_bai, ref, ref_dict, fai, dbsnp, mem,
  unsafe=False, mock=False)\<close>
\<close>

definition run_base_recalibration ::
  "host \<Rightarrow> pyval \<Rightarrow> pyval \<Rightarrow> pyval \<Rightarrow> pyval \<Rightarrow> pyval \<Rightarrow> pyval \<Rightarrow> pyval \<Rightarrow> pyval \<Rightarrow>
   bool \<Rightarrow> bool \<Rightarrow> pyval action" where
  "run_base_recalibration H cores indel_bam indel_bai ref ref_dict fai dbsnp mem unsafe mock =
     bindM (getLocalTempDir H) (\<lambda>work_dir.
     let file_ids = [ref, fai, ref_dict, indel_bam, indel_bai, dbsnp];
         inputs = [''ref.fasta'', ''ref.fasta.fai'', ''ref.dict'', ''sample.indel.bam'',
                   ''sample.indel.bai'', ''dbsnp.vcf'']
     in
     bindM (for_each (zip file_ids inputs) (\<lambda>(file_store_id, name).
              readGlobalFile file_store_id (os_path_join work_dir name))) (\<lambda>_.
     let parameters = [PyStr ''-T'', PyStr ''BaseRecalibrator'',
                       PyStr ''-nct'', PyStr (py_str cores),
                       PyStr ''-R'', PyStr ''/data/ref.fasta'',
                       PyStr ''-I'', PyStr ''/data/sample.indel.bam'',
                       PyStr ''-knownSites'', PyStr ''/data/dbsnp.vcf'',
                       PyStr ''-o'', PyStr ''/data/sample.recal.table''];
         parameters = (if unsafe
                       then parameters @ [PyStr ''-U'', PyStr ''ALLOW_SEQ_DICT_INCOMPATIBILITY'']
                       else parameters)
     in
     bindM (docker_call H \<lparr>call_tool = gatk_image, call_work_dir = work_dir,
                           call_parameters = parameters, call_inputs = Some inputs,
                           call_outputs = Some [(''sample.recal.table'', PyNone)],
                           call_env = Some [(''JAVA_OPTS'', ''-Xmx'' @ py_str mem)],
                           call_mock = Some mock\<rparr>) (\<lambda>_.
     writeGlobalFile (os_path_join work_dir ''sample.recal.table''))))"

text \<open>
  \<^verbatim>\<open>run_print_reads(job, cores, table, indel_bam, indel_bai, ref, ref_dict, fai, mem,
  unsafe=False, mock=False)\<close>
\<close>

definition run_print_reads ::
  "host \<Rightarrow> pyval \<Rightarrow> pyval \<Rightarrow> pyval \<Rightarrow> pyval \<Rightarrow> pyval \<Rightarrow> pyval \<Rightarrow> pyval \<Rightarrow> pyval \<Rightarrow>
   bool \<Rightarrow> bool \<Rightarrow> (pyval \<times> pyval) action" where
  "run_print_reads H cores table indel_bam indel_bai ref ref_dict fai mem unsafe mock =
     bindM (getLocalTempDir H) (\<lambda>work_dir.
     let file_ids = [ref, fai, ref_dict, table, indel_bam, indel_bai];
         inputs = [''ref.fasta'', ''ref.fasta.fai'', ''ref.dict'', ''sample.recal.table'',
                   ''sample.indel.bam'', ''sample.indel.bai'']
     in
     bindM (for_each (zip file_ids inputs) (\<lambda>(file_store_id, name).
              readGlobalFile file_store_id (os_path_join work_dir name))) (\<lambda>_.
     let parameters = [PyStr ''-T'', PyStr ''PrintReads'',
                       PyStr ''-nct'', PyStr (py_str cores),
                       PyStr ''-R'', PyStr ''/data/ref.fasta'',
                       PyStr ''--emit_original_quals'',
                       PyStr ''-I'', PyStr ''/data/sample.indel.bam'',
                       PyStr ''-BQSR'', PyStr ''/data/sample.recal.table'',
                       PyStr ''-o'', PyStr ''/data/sample.bqsr.bam''];
         parameters = (if unsafe
                       then parameters @ [PyStr ''-U'', PyStr ''ALLOW_SEQ_DICT_INCOMPATIBILITY'']
                       else parameters)
     in
     bindM (docker_call H \<lparr>call_tool = gatk_image, call_work_dir = work_dir,
                           call_parameters = parameters, call_inputs = Some inputs,
                           call_outputs = Some [(''sample.bqsr.bam'', PyNone),
                                                (''sample.bqsr.bai'', PyNone)],
                           call_env = Some [(''JAVA_OPTS'', ''-Xmx'' @ py_str mem)],
                           call_mock = Some mock\<rparr>) (\<lambda>_.
     bindM (writeGlobalFile (os_path_join work_dir ''sample.bqsr.bam'')) (\<lambda>bam_id.
     bindM (writeGlobalFile (os_path_join work_dir ''sample.bqsr.bai'')) (\<lambda>bai_id.
     returnM (bam_id, bai_id))))))"

section \<open>The task graph\<close>

text \<open>
  The job functions that \<^verbatim>\<open>run_preprocessing\<close> and \<^verbatim>\<open>run_gatk_preprocessing\<close> wrap.
\<close>

datatype jobfn =
    Samtools_view
  | Picard_sort_sam
  | Picard_mark_duplicates
  | Run_realigner_target_creator
  | Run_indel_realignment
  | Run_base_recalibration
  | Run_print_reads

text \<open>
  An argument of a wrapped job: a value known when the graph is built, or the promise
  of a return value of another job (\<^verbatim>\<open>j.rv()\<close> is \<open>Promise j None\<close>, \<^verbatim>\<open>j.rv(i)\<close> is
  \<open>Promise j (Some i)\<close>).
\<close>

datatype arg = Val pyval | Promise nat "nat option"

record job_desc =
  job_fn :: jobfn
  job_args :: "arg list"
  job_kwargs :: "(string \<times> arg) list"

text \<open>
  The workflow under construction: the jobs wrapped so far, each under its number, and
  the parent/child edges in the order they were added.
\<close>

record workflow =
  next_job :: nat
  wrapped :: "(nat \<times> job_desc) list"
  child_edges :: "(nat \<times> nat) list"

text \<open>\<^verbatim>\<open>job.wrapJobFn(fn, *args, **kwargs)\<close>: a new job, not yet attached to any parent.\<close>

definition wrapJobFn ::
  "jobfn \<Rightarrow> arg list \<Rightarrow> (string \<times> arg) list \<Rightarrow> workflow \<Rightarrow> nat \<times> workflow" where
  "wrapJobFn f args kwargs g =
     (next_job g,
      g\<lparr>next_job := Suc (next_job g),
        wrapped := wrapped g @ [(next_job g, \<lparr>job_fn = f, job_args = args, job_kwargs = kwargs\<rparr>)]\<rparr>)"

definition rv :: "nat \<Rightarrow> arg" where
  "rv j = Promise j None"

definition rv_at :: "nat \<Rightarrow> nat \<Rightarrow> arg" where
  "rv_at j i = Promise j (Some i)"

text \<open>\<^verbatim>\<open>parent.addChild(child)\<close>\<close>

definition addChild :: "nat \<Rightarrow> nat \<Rightarrow> workflow \<Rightarrow> workflow" where
  "addChild parent child g = g\<lparr>child_edges := child_edges g @ [(parent, child)]\<rparr>"

text \<open>
  \<^verbatim>\<open>run_preprocessing(job, cores, bam, bai, ref, ref_dict, fai, phase, mills, dbsnp,
  mem='10G', unsafe=False)\<close>
\<close>

definition run_preprocessing ::
  "nat \<Rightarrow> pyval \<Rightarrow> pyval \<Rightarrow> pyval \<Rightarrow> pyval \<Rightarrow> pyval \<Rightarrow> pyval \<Rightarrow> pyval \<Rightarrow> pyval \<Rightarrow> pyval \<Rightarrow> pyval \<Rightarrow>
   bool \<Rightarrow> workflow \<Rightarrow> (arg \<times> arg) \<times> workflow" where
  "run_preprocessing job cores bam bai ref ref_dict fai phase mills dbsnp mem unsafe g0 =
     (let (rtc, g1) = wrapJobFn Run_realigner_target_creator
                        [Val cores, Val bam, Val bai, Val ref, Val ref_dict, Val fai,
                         Val phase, Val mills, Val mem, Val (PyBool unsafe)] [] g0;
          (ir, g2) = wrapJobFn Run_indel_realignment
                       [rv rtc, Val bam, Val bai, Val ref, Val ref_dict, Val fai,
                        Val phase, Val mills, Val mem, Val (PyBool unsafe)] [] g1;
          (br, g3) = wrapJobFn Run_base_recalibration
                       [Val cores, rv_at ir 0, rv_at ir 1, Val ref, Val ref_dict, Val fai,
                        Val dbsnp, Val mem, Val (PyBool unsafe)] [] g2;
          (pr, g4) = wrapJobFn Run_print_reads
                       [Val cores, rv br, rv_at ir 0, rv_at ir 1, Val ref, Val ref_dict,
                        Val fai, Val mem, Val (PyBool unsafe)] [] g3;
          g5 = addChild job rtc g4;
          g6 = addChild rtc ir g5;
          g7 = addChild ir br g6;
          g8 = addChild br pr g7
      in ((rv_at pr 0, rv_at pr 1), g8))"

text \<open>
  \<^verbatim>\<open>run_gatk_preprocessing(job, cores, bam, bai, ref, ref_dict, fai, phase, mills, dbsnp,
  mem='10G', unsafe=False, mock=False)\<close>
\<close>

definition run_gatk_preprocessing ::
  "nat \<Rightarrow> pyval \<Rightarrow> pyval \<Rightarrow> pyval \<Rightarrow> pyval \<Rightarrow> pyval \<Rightarrow> pyval \<Rightarrow> pyval \<Rightarrow> pyval \<Rightarrow> pyval \<Rightarrow> pyval \<Rightarrow>
   bool \<Rightarrow> bool \<Rightarrow> workflow \<Rightarrow> (arg \<times> arg) \<times> workflow" where
  "run_gatk_preprocessing job cores bam bai ref ref_dict fai phase mills dbsnp mem unsafe mock g0 =
     (let (rm_secondary, g1) = wrapJobFn Samtools_view [Val bam]
                                 [(''flag'', Val (PyStr ''0x800'')),
                                  (''mock'', Val (PyBool mock))] g0;
          (picard_sort, g2) = wrapJobFn Picard_sort_sam [rv rm_secondary]
                                [(''xmx'', Val mem), (''mock'', Val (PyBool mock))] g1;
          (mdups, g3) = wrapJobFn Picard_mark_duplicates
                          [rv_at picard_sort 0, rv_at picard_sort 1]
                          [(''xmx'', Val mem), (''mock'', Val (PyBool mock))] g2;
          (rtc, g4) = wrapJobFn Run_realigner_target_creator
                        [Val cores, rv_at mdups 0, rv_at mdups 1, Val ref, Val ref_dict,
                         Val fai, Val phase, Val mills, Val mem]
                        [(''unsafe'', Val (PyBool unsafe)), (''mock'', Val (PyBool mock))] g3;
          (ir, g5) = wrapJobFn Run_indel_realignment
                       [rv rtc, Val bam, Val bai, Val ref, Val ref_dict, Val fai, Val phase,
                        Val mills, Val mem]
                       [(''unsafe'', Val (PyBool unsafe)), (''mock'', Val (PyBool mock))] g4;
          (br, g6) = wrapJobFn Run_base_recalibration
                       [Val cores, rv_at ir 0, rv_at ir 1, Val ref, Val ref_dict, Val fai,
                        Val dbsnp, Val mem]
                       [(''unsafe'', Val (PyBool unsafe)), (''mock'', Val (PyBool mock))] g5;
          (pr, g7) = wrapJobFn Run_print_reads
                       [Val cores, rv br, rv_at ir 0, rv_at ir 1, Val ref, Val ref_dict,
                        Val fai, Val mem]
                       [(''unsafe'', Val (PyBool unsafe)), (''mock'', Val (PyBool mock))] g6;
          g8 = addChild job rm_secondary g7;
          g9 = addChild rm_secondary picard_sort g8;
          g10 = addChild picard_sort mdups g9;
          g11 = addChild mdups rtc g10;
          g12 = addChild rtc ir g11;
          g13 = addChild ir br g12;
          g14 = addChild br pr g13
      in ((rv_at pr 0, rv_at pr 1), g14))"

section \<open>Observing a run\<close>

text \<open>The command lines handed to the container invocations between two worlds.\<close>

definition command_lines :: "world \<Rightarrow> world \<Rightarrow> pyval list list" where
  "command_lines w w' = map call_parameters (invocations_of (events_since w w'))"

text \<open>A value is a handle the store can resolve, and the content it resolves to.\<close>

definition readable :: "world \<Rightarrow> pyval \<Rightarrow> bool" where
  "readable w fid = (case fid of PyStr h \<Rightarrow> map_of (store w) h \<noteq> None | _ \<Rightarrow> False)"

definition content :: "world \<Rightarrow> pyval \<Rightarrow> data" where
  "content w fid =
     (case fid of
        PyStr h \<Rightarrow> (case map_of (store w) h of Some d \<Rightarrow> d | None \<Rightarrow> [])
      | _ \<Rightarrow> [])"


text \<open>The local paths handed to \<^verbatim>\<open>writeGlobalFile\<close>.\<close>

fun written_paths :: "event list \<Rightarrow> string list" where
  "written_paths [] = []"
| "written_paths (WriteGlobalFile p # evs) = p # written_paths evs"
| "written_paths (_ # evs) = written_paths evs"

text \<open>A text occurs in a command line: it is part of one of its string arguments.\<close>

definition occurs_in :: "string \<Rightarrow> pyval list \<Rightarrow> bool" where
  "occurs_in name params =
     list_ex (\<lambda>p. case p of PyStr s \<Rightarrow> sublist name s | _ \<Rightarrow> False) params"

text \<open>
  The order of the calls of one wrapper: no \<^verbatim>\<open>writeGlobalFile\<close> before the container
  invocation, and after it nothing but \<^verbatim>\<open>writeGlobalFile\<close> (no further read, no second
  invocation).
\<close>

fun only_writes :: "event list \<Rightarrow> bool" where
  "only_writes [] = True"
| "only_writes (WriteGlobalFile p # evs) = only_writes evs"
| "only_writes (_ # evs) = False"

fun call_order :: "event list \<Rightarrow> bool" where
  "call_order [] = True"
| "call_order (DockerCall a # evs) = only_writes evs"
| "call_order (WriteGlobalFile p # evs) = False"
| "call_order (_ # evs) = call_order evs"

text \<open>A call that reads the file store reads one of the given handles.\<close>

fun reads_from :: "pyval list \<Rightarrow> event \<Rightarrow> bool" where
  "reads_from ids (ReadGlobalFile fid p) = (fid \<in> set ids)"
| "reads_from ids _ = True"

text \<open>The entries appended to the store carry handles the store did not have.\<close>

definition fresh_entries :: "(string \<times> data) list \<Rightarrow> (string \<times> data) list \<Rightarrow> bool" where
  "fresh_entries st new = (distinct (map fst new) \<and> list_all (\<lambda>e. fst e \<notin> set (map fst st)) new)"

text \<open>
  A call of one of the eleven wrappers, as the workflow engine makes it, with the
  arguments in the order of the function's parameters (after \<^verbatim>\<open>job\<close>).
\<close>

datatype wrapper_call =
    Call_run_cutadapt pyval pyval pyval pyval
  | Call_run_samtools_faidx pyval bool
  | Call_run_samtools_index pyval
  | Call_samtools_view pyval pyval bool
  | Call_run_picard_create_sequence_dictionary pyval pyval bool
  | Call_picard_sort_sam pyval pyval bool
  | Call_picard_mark_duplicates pyval pyval pyval bool
  | Call_run_realigner_target_creator pyval pyval pyval pyval pyval pyval pyval pyval pyval
      bool bool
  | Call_run_indel_realignment pyval pyval pyval pyval pyval pyval pyval pyval pyval
      bool bool
  | Call_run_base_recalibration pyval pyval pyval pyval pyval pyval pyval pyval bool bool
  | Call_run_print_reads pyval pyval pyval pyval pyval pyval pyval pyval bool bool

definition single :: "pyval action \<Rightarrow> pyval list action" where
  "single m = bindM m (\<lambda>x. returnM [x])"

definition pair :: "(pyval \<times> pyval) action \<Rightarrow> pyval list action" where
  "pair m = bindM m (\<lambda>(x, y). returnM [x, y])"

fun run_wrapper :: "host \<Rightarrow> wrapper_call \<Rightarrow> pyval list action" where
  "run_wrapper H (Call_run_cutadapt r1_id r2_id fwd_3pr_adapter rev_3pr_adapter) =
     pair (run_cutadapt H r1_id r2_id fwd_3pr_adapter rev_3pr_adapter)"
| "run_wrapper H (Call_run_samtools_faidx ref_id mock) =
     single (run_samtools_faidx H ref_id mock)"
| "run_wrapper H (Call_run_samtools_index bam_id) =
     single (run_samtools_index H bam_id)"
| "run_wrapper H (Call_samtools_view bam_id flag mock) =
     single (samtools_view H bam_id flag mock)"
| "run_wrapper H (Call_run_picard_create_sequence_dictionary ref_id xmx mock) =
     single (run_picard_create_sequence_dictionary H ref_id xmx mock)"
| "run_wrapper H (Call_picard_sort_sam bam_id xmx mock) =
     pair (picard_sort_sam H bam_id xmx mock)"
| "run_wrapper H (Call_picard_mark_duplicates bam_id bai_id xmx mock) =
     pair (picard_mark_duplicates H bam_id bai_id xmx mock)"
| "run_wrapper H (Call_run_realigner_target_creator cores bam bai ref ref_dict fai phase mills
                    mem unsafe mock) =
     single (run_realigner_target_creator H cores bam bai ref ref_dict fai phase mills mem
               unsafe mock)"
| "run_wrapper H (Call_run_indel_realignment intervals bam bai ref ref_dict fai phase mills
                    mem unsafe mock) =
     pair (run_indel_realignment H intervals bam bai ref ref_dict fai phase mills mem
             unsafe mock)"
| "run_wrapper H (Call_run_base_recalibration cores indel_bam indel_bai ref ref_dict fai dbsnp
                    mem unsafe mock) =
     single (run_base_recalibration H cores indel_bam indel_bai ref ref_dict fai dbsnp mem
               unsafe mock)"
| "run_wrapper H (Call_run_print_reads cores table indel_bam indel_bai ref ref_dict fai
                    mem unsafe mock) =
     pair (run_print_reads H cores table indel_bam indel_bai ref ref_dict fai mem
             unsafe mock)"

text \<open>The file-store handles among the arguments of a call.\<close>

fun file_ids_of :: "wrapper_call \<Rightarrow> pyval list" where
  "file_ids_of (Call_run_cutadapt r1_id r2_id fwd_3pr_adapter rev_3pr_adapter) = [r1_id, r2_id]"
| "file_ids_of (Call_run_samtools_faidx ref_id mock) = [ref_id]"
| "file_ids_of (Call_run_samtools_index bam_id) = [bam_id]"
| "file_ids_of (Call_samtools_view bam_id flag mock) = [bam_id]"
| "file_ids_of (Call_run_picard_create_sequence_dictionary ref_id xmx mock) = [ref_id]"
| "file_ids_of (Call_picard_sort_sam bam_id xmx mock) = [bam_id]"
| "file_ids_of (Call_picard_mark_duplicates bam_id bai_id xmx mock) = [bam_id, bai_id]"
| "file_ids_of (Call_run_realigner_target_creator cores bam bai ref ref_dict fai phase mills
                  mem unsafe mock) = [bam, bai, ref, ref_dict, fai, phase, mills]"
| "file_ids_of (Call_run_indel_realignment intervals bam bai ref ref_dict fai phase mills
                  mem unsafe mock) = [intervals, bam, bai, ref, ref_dict, fai, phase, mills]"
| "file_ids_of (Call_run_base_recalibration cores indel_bam indel_bai ref ref_dict fai dbsnp
                  mem unsafe mock) = [indel_bam, indel_bai, ref, ref_dict, fai, dbsnp]"
| "file_ids_of (Call_run_print_reads cores table indel_bam indel_bai ref ref_dict fai
                  mem unsafe mock) = [table, indel_bam, indel_bai, ref, ref_dict, fai]"

section \<open>Concrete hosts, worlds and workflows\<close>

text \<open>
  A host with four cores whose containers leave every file they are asked about on the
  local disk, the same host with eight cores, and a world whose store holds one file.
\<close>

definition host4 :: host where
  "host4 = \<lparr>cpu_count = 4, local_temp_dir = (\<lambda>n. ''/tmp/job''),
            container = (\<lambda>args d. Some (\<lambda>p. Some ''out''))\<rparr>"

definition host8 :: host where
  "host8 = \<lparr>cpu_count = 8, local_temp_dir = (\<lambda>n. ''/tmp/job''),
            container = (\<lambda>args d. Some (\<lambda>p. Some ''out''))\<rparr>"

definition world0 :: world where
  "world0 = \<lparr>store = [(''h'', ''x'')], disk = Map.empty, temp_count = 0, trace = []\<rparr>"

definition workflow0 :: workflow where
  "workflow0 = \<lparr>next_job = 1, wrapped = [], child_edges = []\<rparr>"

text \<open>Three runs on the four-core host, every input being the one file of the store.\<close>

definition rtc_run :: "(error + pyval) \<times> world" where
  "rtc_run = run_realigner_target_creator host4 (PyInt 4) (PyStr ''h'') (PyStr ''h'') (PyStr ''h'')
               (PyStr ''h'') (PyStr ''h'') (PyStr ''h'') (PyStr ''h'') (PyStr ''10G'') True False
               world0"

definition mark_duplicates_run :: "(error + pyval list) \<times> world" where
  "mark_duplicates_run =
     run_wrapper host4 (Call_picard_mark_duplicates (PyStr ''h'') (PyStr ''h'') (PyStr ''8G'') False)
       world0"

definition indel_realignment_run :: "(error + pyval list) \<times> world" where
  "indel_realignment_run =
     run_wrapper host4
       (Call_run_indel_realignment (PyStr ''h'') (PyStr ''h'') (PyStr ''h'') (PyStr ''h'')
          (PyStr ''h'') (PyStr ''h'') (PyStr ''h'') (PyStr ''h'') (PyStr ''10G'') False False)
       world0"

text \<open>A paired-end call of \<^verbatim>\<open>run_cutadapt\<close> without a reverse adapter.\<close>

definition cutadapt_unconfigured_run :: "(error + pyval list) \<times> world" where
  "cutadapt_unconfigured_run =
     run_wrapper host4 (Call_run_cutadapt (PyStr ''h'') (PyStr ''h'') (PyStr ''AGATC'') PyNone)
       world0"

section \<open>Facts about the collaborators\<close>

lemma digit_char_inj: "a < 10 \<Longrightarrow> b < 10 \<Longrightarrow> digit_char a = digit_char b \<Longrightarrow> a = b"
  unfolding digit_char_def
  by (subst (asm) nth_eq_iff_index_eq) simp_all

lemma str_nat_nonempty: "str_nat n \<noteq> []"
  by (subst str_nat.simps) simp

lemma str_nat_inj: "str_nat m = str_nat n \<Longrightarrow> m = n"
proof (induction m arbitrary: n rule: str_nat.induct)
  case (1 m)
  show ?case
  proof (cases "m < 10")
    case small_m: True
    show ?thesis
    proof (cases "n < 10")
      case True
      with small_m "1.prems" have "digit_char m = digit_char n"
        by (simp add: str_nat.simps [of m] str_nat.simps [of n])
      with small_m True show ?thesis by (rule digit_char_inj)
    next
      case False
      with small_m "1.prems" have "str_nat (n div 10) = []"
        by (simp add: str_nat.simps [of m] str_nat.simps [of n])
      then show ?thesis by (simp add: str_nat_nonempty)
    qed
  next
    case big_m: False
    show ?thesis
    proof (cases "n < 10")
      case True
      with big_m "1.prems" have "str_nat (m div 10) = []"
        by (simp add: str_nat.simps [of m] str_nat.simps [of n])
      then show ?thesis by (simp add: str_nat_nonempty)
    next
      case False
      with big_m "1.prems" have eq: "str_nat (m div 10) = str_nat (n div 10)"
        and dg: "digit_char (m mod 10) = digit_char (n mod 10)"
        by (simp_all add: str_nat.simps [of m] str_nat.simps [of n])
      from big_m eq have "m div 10 = n div 10" by (rule "1.IH")
      moreover from dg have "m mod 10 = n mod 10" by (intro digit_char_inj) simp_all
      ultimately show ?thesis by (metis div_mult_mod_eq)
    qed
  qed
qed

lemma readable_upd [simp]:
  "readable (w\<lparr>disk := d\<rparr>) fid = readable w fid"
  "readable (w\<lparr>trace := t\<rparr>) fid = readable w fid"
  "readable (w\<lparr>temp_count := c\<rparr>) fid = readable w fid"
  by (simp_all add: readable_def split: pyval.splits)

lemma content_upd [simp]:
  "content (w\<lparr>disk := d\<rparr>) fid = content w fid"
  "content (w\<lparr>trace := t\<rparr>) fid = content w fid"
  "content (w\<lparr>temp_count := c\<rparr>) fid = content w fid"
  by (simp_all add: content_def split: pyval.splits)

text \<open>A read either fails, leaving only its call in the trace, or copies the content.\<close>

lemma readGlobalFile_eq:
  "readGlobalFile fid path w =
     (if readable w fid
      then (Inr path, w\<lparr>disk := (disk w)(path \<mapsto> content w fid),
                        trace := trace w @ [ReadGlobalFile fid path]\<rparr>)
      else (Inl (FileStoreError fid), w\<lparr>trace := trace w @ [ReadGlobalFile fid path]\<rparr>))"
  by (auto simp: readGlobalFile_def readable_def content_def record_call_def Let_def
      split: pyval.splits option.splits)

lemma fresh_id_longer: "e \<in> set st \<Longrightarrow> length (fst e) < length (fresh_id st)"
  by (induction st) (auto simp: fresh_id_def)

lemma fresh_id_new [simp]: "(fresh_id st, d) \<notin> set st"
  using fresh_id_longer [of "(fresh_id st, d)" st] by auto

lemma fresh_id_new_fst [simp]: "fresh_id st \<notin> fst ` set st"
  using fresh_id_longer by fastforce

lemma fresh_id_append_new [simp]: "fresh_id (st @ ys) \<notin> fst ` set st"
  using fresh_id_longer [of _ "st @ ys"] by fastforce

lemma fresh_id_append_neq [simp]:
  "fresh_id (st @ (h, d) # ys) \<noteq> h" "h \<noteq> fresh_id (st @ (h, d) # ys)"
  using fresh_id_longer [of "(h, d)" "st @ (h, d) # ys"] by auto

lemmas exec = bindM_def returnM_def raiseM_def getLocalTempDir_def readGlobalFile_eq
  writeGlobalFile_def docker_call_def logToMaster_def record_call_def events_since_def
  require_def Let_def command_lines_def

lemmas graph_defs = wrapJobFn_def rv_def rv_at_def addChild_def

section \<open>The task graph of \<^verbatim>\<open>run_gatk_preprocessing\<close>\<close>

text \<open>
  C1. Whatever the arguments and the workflow built so far, \<^verbatim>\<open>run_gatk_preprocessing\<close>
  wraps seven jobs, in this order: \<^verbatim>\<open>samtools_view\<close> (on the caller's bam, with flag
  \<^verbatim>\<open>'0x800'\<close>), \<^verbatim>\<open>picard_sort_sam\<close>, \<^verbatim>\<open>picard_mark_duplicates\<close>,
  \<^verbatim>\<open>run_realigner_target_creator\<close>, \<^verbatim>\<open>run_indel_realignment\<close>, \<^verbatim>\<open>run_base_recalibration\<close>
  and \<^verbatim>\<open>run_print_reads\<close>. The edges it adds form one chain: the first job is made a child
  of the calling job and every other job a child of the job wrapped just before it. It
  returns the promises of return values 0 and 1 of the print-reads job.
\<close>

theorem run_gatk_preprocessing_chain:
  "child_edges (snd (run_gatk_preprocessing job cores bam bai ref ref_dict fai phase mills
                       dbsnp mem unsafe mock g)) =
     child_edges g @
       [(job, next_job g),
        (next_job g, next_job g + 1),
        (next_job g + 1, next_job g + 2),
        (next_job g + 2, next_job g + 3),
        (next_job g + 3, next_job g + 4),
        (next_job g + 4, next_job g + 5),
        (next_job g + 5, next_job g + 6)]
   \<and> map (\<lambda>(j, d). (j, job_fn d))
        (drop (length (wrapped g))
           (wrapped (snd (run_gatk_preprocessing job cores bam bai ref ref_dict fai phase mills
                            dbsnp mem unsafe mock g)))) =
       [(next_job g, Samtools_view),
        (next_job g + 1, Picard_sort_sam),
        (next_job g + 2, Picard_mark_duplicates),
        (next_job g + 3, Run_realigner_target_creator),
        (next_job g + 4, Run_indel_realignment),
        (next_job g + 5, Run_base_recalibration),
        (next_job g + 6, Run_print_reads)]
   \<and> take 1 (drop (length (wrapped g))
        (wrapped (snd (run_gatk_preprocessing job cores bam bai ref ref_dict fai phase mills
                         dbsnp mem unsafe mock g)))) =
       [(next_job g,
         \<lparr>job_fn = Samtools_view, job_args = [Val bam],
          job_kwargs = [(''flag'', Val (PyStr ''0x800'')), (''mock'', Val (PyBool mock))]\<rparr>)]
   \<and> fst (run_gatk_preprocessing job cores bam bai ref ref_dict fai phase mills
            dbsnp mem unsafe mock g) =
       (Promise (next_job g + 6) (Some 0), Promise (next_job g + 6) (Some 1))"
  by (simp add: run_gatk_preprocessing_def graph_defs Let_def)

text \<open>
  C2, evaluated on the code. Called by job 0 on a workflow whose next job number is 1,
  \<^verbatim>\<open>run_gatk_preprocessing\<close> wraps mark-duplicates as job 3, the target creator as job 4
  and the indel realignment as job 5. The target creator is given the two promised
  outputs of mark-duplicates as its bam and bai, but the indel realignment is given the
  caller's own \<^verbatim>\<open>bam\<close> and \<^verbatim>\<open>bai\<close> values, not the outputs of any earlier stage.
\<close>

theorem run_gatk_preprocessing_indel_realignment_inputs:
  "map (\<lambda>j. map_option (\<lambda>d. (job_fn d, job_args d))
              (map_of (wrapped (snd (run_gatk_preprocessing 0 (PyInt 4)
                 (PyStr ''bam'') (PyStr ''bai'') (PyStr ''ref'') (PyStr ''dict'') (PyStr ''fai'')
                 (PyStr ''phase'') (PyStr ''mills'') (PyStr ''dbsnp'') (PyStr ''10G'')
                 False False workflow0))) j)) [3, 4, 5] =
     [Some (Picard_mark_duplicates, [Promise 2 (Some 0), Promise 2 (Some 1)]),
      Some (Run_realigner_target_creator,
            [Val (PyInt 4), Promise 3 (Some 0), Promise 3 (Some 1), Val (PyStr ''ref''),
             Val (PyStr ''dict''), Val (PyStr ''fai''), Val (PyStr ''phase''),
             Val (PyStr ''mills''), Val (PyStr ''10G'')]),
      Some (Run_indel_realignment,
            [Promise 4 None, Val (PyStr ''bam''), Val (PyStr ''bai''), Val (PyStr ''ref''),
             Val (PyStr ''dict''), Val (PyStr ''fai''), Val (PyStr ''phase''),
             Val (PyStr ''mills''), Val (PyStr ''10G'')])]"
  by (simp add: run_gatk_preprocessing_def graph_defs Let_def workflow0_def)

text \<open>
  The sibling \<^verbatim>\<open>run_preprocessing\<close> gives the target creator and the indel realignment
  the same bam and bai.
\<close>

lemma run_preprocessing_indel_realignment_inputs:
  "map (\<lambda>j. map_option (\<lambda>d. (job_fn d, take 3 (job_args d)))
              (map_of (wrapped (snd (run_preprocessing 0 cores bam bai ref ref_dict fai phase
                 mills dbsnp mem unsafe workflow0))) j)) [1, 2] =
     [Some (Run_realigner_target_creator, [Val cores, Val bam, Val bai]),
      Some (Run_indel_realignment, [Promise 1 None, Val bam, Val bai])]"
  by (simp add: run_preprocessing_def graph_defs Let_def workflow0_def)

section \<open>Adapter trimming\<close>

text \<open>
  C3. When \<^verbatim>\<open>r2_id\<close> is truthy and \<^verbatim>\<open>rev_3pr_adapter\<close> is falsy, \<^verbatim>\<open>run_cutadapt\<close> fails with
  the configuration error. The only call it has made by then is \<^verbatim>\<open>getLocalTempDir\<close>: no
  file has been read from the store, no container has been invoked, no file has been
  written, and the store and the local disk are as they were.
\<close>

theorem cutadapt_paired_requires_reverse_adapter:
  "truthy r2_id \<Longrightarrow> \<not> truthy rev_3pr_adapter \<Longrightarrow>
   run_cutadapt H r1_id r2_id fwd_3pr_adapter rev_3pr_adapter w = (r, w') \<Longrightarrow>
   r = Inl (ConfigurationError ''Paired end data requires a reverse 3' adapter sequence.'')
   \<and> events_since w w' = [GetLocalTempDir]
   \<and> store w' = store w \<and> disk w' = disk w"
  by (auto simp add: run_cutadapt_def exec)

theorem cutadapt_paired_requires_reverse_adapter_witness:
  "truthy (PyStr ''h'') \<and> \<not> truthy PyNone
   \<and> fst (run_cutadapt host4 (PyStr ''h'') (PyStr ''h'') (PyStr ''AGATC'') PyNone world0) =
       Inl (ConfigurationError ''Paired end data requires a reverse 3' adapter sequence.'')
   \<and> events_since world0
        (snd (run_cutadapt host4 (PyStr ''h'') (PyStr ''h'') (PyStr ''AGATC'') PyNone world0)) =
       [GetLocalTempDir]
   \<and> store (snd (run_cutadapt host4 (PyStr ''h'') (PyStr ''h'') (PyStr ''AGATC'') PyNone
                   world0)) = store world0"
  using cutadapt_paired_requires_reverse_adapter
    [of "PyStr ''h''" PyNone host4 "PyStr ''h''" "PyStr ''AGATC''" world0
        "fst (run_cutadapt host4 (PyStr ''h'') (PyStr ''h'') (PyStr ''AGATC'') PyNone world0)"
        "snd (run_cutadapt host4 (PyStr ''h'') (PyStr ''h'') (PyStr ''AGATC'') PyNone world0)"]
  by simp



section \<open>The command line of \<^verbatim>\<open>samtools_view\<close>\<close>

text \<open>
  C9. The command \<^verbatim>\<open>samtools_view\<close> passes to the container invocation (it passes one
  when the input handle can be read, and none otherwise) is
  \<^verbatim>\<open>['view', '-b', '-o', '/data/sample.output.bam', '-F', str(flag), '-@', str(n),
  '/data/sample.bam']\<close> with \<open>n\<close> the CPU count of the host. So the same call on two hosts
  with different CPU counts passes different commands, and the default flag gives
  \<^verbatim>\<open>'-F', '0'\<close>.
\<close>

theorem samtools_view_command:
  "command_lines w (snd (samtools_view H bam_id flag mock w)) =
     (if readable w bam_id
      then [[PyStr ''view'', PyStr ''-b'', PyStr ''-o'', PyStr ''/data/sample.output.bam'',
             PyStr ''-F'', PyStr (py_str flag), PyStr ''-@'', PyStr (str_nat (cpu_count H)),
             PyStr ''/data/sample.bam'']]
      else [])
   \<and> (readable w bam_id \<longrightarrow> cpu_count H \<noteq> cpu_count H' \<longrightarrow>
        command_lines w (snd (samtools_view H bam_id flag mock w)) \<noteq>
        command_lines w (snd (samtools_view H' bam_id flag mock w)))
   \<and> (readable w bam_id \<longrightarrow>
        command_lines w (snd (samtools_view H bam_id samtools_view_flag_default mock w)) =
          [[PyStr ''view'', PyStr ''-b'', PyStr ''-o'', PyStr ''/data/sample.output.bam'',
            PyStr ''-F'', PyStr ''0'', PyStr ''-@'', PyStr (str_nat (cpu_count H)),
            PyStr ''/data/sample.bam'']])"
proof -
  have cmd: "command_lines w (snd (samtools_view K bam_id fl mock w)) =
     (if readable w bam_id
      then [[PyStr ''view'', PyStr ''-b'', PyStr ''-o'', PyStr ''/data/sample.output.bam'',
             PyStr ''-F'', PyStr (py_str fl), PyStr ''-@'', PyStr (str_nat (cpu_count K)),
             PyStr ''/data/sample.bam'']]
      else [])" for K fl
    by (simp add: samtools_view_def exec split: option.splits)
  show ?thesis
    by (auto simp add: cmd samtools_view_flag_default_def dest: str_nat_inj)
qed

theorem samtools_view_command_witness:
  "readable world0 (PyStr ''h'') \<and> cpu_count host4 \<noteq> cpu_count host8
   \<and> command_lines world0 (snd (samtools_view host4 (PyStr ''h'') (PyStr ''0x800'') False world0)) =
       [[PyStr ''view'', PyStr ''-b'', PyStr ''-o'', PyStr ''/data/sample.output.bam'',
         PyStr ''-F'', PyStr ''0x800'', PyStr ''-@'', PyStr ''4'', PyStr ''/data/sample.bam'']]
   \<and> command_lines world0 (snd (samtools_view host4 (PyStr ''h'') (PyStr ''0x800'') False world0)) \<noteq>
     command_lines world0 (snd (samtools_view host8 (PyStr ''h'') (PyStr ''0x800'') False world0))"
proof -
  have r: "readable world0 (PyStr ''h'')"
    by (simp add: readable_def world0_def)
  have c: "cpu_count host4 \<noteq> cpu_count host8"
    by (simp add: host4_def host8_def)
  have s: "str_nat (cpu_count host4) = ''4''"
    by (simp add: host4_def str_nat.simps digit_char_def)
  note t = samtools_view_command [of world0 host4 "PyStr ''h''" "PyStr ''0x800''" False host8]
  from t r have "command_lines world0
      (snd (samtools_view host4 (PyStr ''h'') (PyStr ''0x800'') False world0)) =
       [[PyStr ''view'', PyStr ''-b'', PyStr ''-o'', PyStr ''/data/sample.output.bam'',
         PyStr ''-F'', PyStr ''0x800'', PyStr ''-@'', PyStr (str_nat (cpu_count host4)),
         PyStr ''/data/sample.bam'']]"
    by simp
  moreover from t r c have "command_lines world0
      (snd (samtools_view host4 (PyStr ''h'') (PyStr ''0x800'') False world0)) \<noteq>
     command_lines world0 (snd (samtools_view host8 (PyStr ''h'') (PyStr ''0x800'') False world0))"
    by blast
  ultimately show ?thesis using r c s by (simp only: simp_thms)
qed

section \<open>The single-end output of \<^verbatim>\<open>run_cutadapt\<close>\<close>

lemma not_in_fixed_arguments:
  "\<not> occurs_in ''R1_cutadapt.fastq''
       [PyStr ''-a'', PyStr ''-m'', PyStr ''35'', PyStr ''-o'', PyStr ''/data/R1.fastq'',
        PyStr ''/data/R1.fastq'']"
  by (simp add: occurs_in_def sublist_code)

lemma cutadapt_single_end_run:
  "truthy r1_id \<Longrightarrow> \<not> truthy r2_id \<Longrightarrow>
   run_cutadapt H r1_id r2_id fwd_3pr_adapter rev_3pr_adapter w = (r, w') \<Longrightarrow>
   (let work_dir = local_temp_dir H (temp_count w);
        staged_as = os_path_join work_dir ''R1.fastq'';
        invocation =
          \<lparr>call_tool = cutadapt_image, call_work_dir = work_dir,
           call_parameters =
             [PyStr ''-a'', fwd_3pr_adapter, PyStr ''-m'', PyStr ''35'',
              PyStr ''-o'', PyStr ''/data/R1.fastq'', PyStr ''/data/R1.fastq''],
           call_inputs = None, call_outputs = None, call_env = None, call_mock = None\<rparr>;
        written = os_path_join work_dir ''R1_cutadapt.fastq''
    in (if readable w r1_id
        then (case container H invocation ((disk w)(staged_as \<mapsto> content w r1_id)) of
                None \<Rightarrow>
                  events_since w w' =
                    [GetLocalTempDir, ReadGlobalFile r1_id staged_as, DockerCall invocation]
                  \<and> r = Inl ToolError
              | Some d' \<Rightarrow>
                  events_since w w' =
                    [GetLocalTempDir, ReadGlobalFile r1_id staged_as, DockerCall invocation,
                     WriteGlobalFile written]
                  \<and> (case d' written of
                         None \<Rightarrow> r = Inl (LocalFileError written)
                       | Some d \<Rightarrow> r = Inr (PyStr (fresh_id (store w)), PyNone)))
        else events_since w w' = [GetLocalTempDir, ReadGlobalFile r1_id staged_as]
             \<and> r = Inl (FileStoreError r1_id)))"
  by (auto simp add: run_cutadapt_def exec split: if_splits option.splits)

text \<open>
  C8. A single-end call (\<^verbatim>\<open>r1_id\<close> truthy, \<^verbatim>\<open>r2_id\<close> falsy) stages its input under
  \<^verbatim>\<open>R1.fastq\<close> in the working directory and, when that read succeeds, passes the tool the
  command line \<^verbatim>\<open>['-a', fwd_3pr_adapter, '-m', '35', '-o', '/data/R1.fastq',
  '/data/R1.fastq']\<close>: the output is directed to \<^verbatim>\<open>/data/R1.fastq\<close>, the name the input was
  staged under. When the tool run succeeds, the one path the call then hands to
  \<^verbatim>\<open>writeGlobalFile\<close> is \<^verbatim>\<open>R1_cutadapt.fastq\<close> in the working directory. That file name
  occurs in none of the arguments the function writes into the command line: the tool
  is never told to write it. (The adapter sequence is passed on as the caller gives it;
  the name occurs in the command line exactly when it occurs in that sequence itself.)
\<close>

theorem cutadapt_single_end_filename:
  "truthy r1_id \<Longrightarrow> \<not> truthy r2_id \<Longrightarrow>
   run_cutadapt H r1_id r2_id fwd_3pr_adapter rev_3pr_adapter w = (r, w') \<Longrightarrow>
   (let work_dir = local_temp_dir H (temp_count w);
        staged_as = os_path_join work_dir ''R1.fastq'';
        invocation =
          \<lparr>call_tool = cutadapt_image, call_work_dir = work_dir,
           call_parameters =
             [PyStr ''-a'', fwd_3pr_adapter, PyStr ''-m'', PyStr ''35'',
              PyStr ''-o'', PyStr ''/data/R1.fastq'', PyStr ''/data/R1.fastq''],
           call_inputs = None, call_outputs = None, call_env = None, call_mock = None\<rparr>;
        written = os_path_join work_dir ''R1_cutadapt.fastq''
    in (if readable w r1_id
        then (case container H invocation ((disk w)(staged_as \<mapsto> content w r1_id)) of
                None \<Rightarrow>
                  events_since w w' =
                    [GetLocalTempDir, ReadGlobalFile r1_id staged_as, DockerCall invocation]
                  \<and> r = Inl ToolError
              | Some d' \<Rightarrow>
                  events_since w w' =
                    [GetLocalTempDir, ReadGlobalFile r1_id staged_as, DockerCall invocation,
                     WriteGlobalFile written]
                  \<and> (case d' written of
                         None \<Rightarrow> r = Inl (LocalFileError written)
                       | Some d \<Rightarrow> r = Inr (PyStr (fresh_id (store w)), PyNone)))
        else events_since w w' = [GetLocalTempDir, ReadGlobalFile r1_id staged_as]
             \<and> r = Inl (FileStoreError r1_id))
       \<and> \<not> occurs_in ''R1_cutadapt.fastq''
             [PyStr ''-a'', PyStr ''-m'', PyStr ''35'',
              PyStr ''-o'', PyStr ''/data/R1.fastq'', PyStr ''/data/R1.fastq'']
       \<and> (occurs_in ''R1_cutadapt.fastq'' (call_parameters invocation)
            \<longleftrightarrow> occurs_in ''R1_cutadapt.fastq'' [fwd_3pr_adapter]))"
proof -
  assume single: "truthy r1_id" "\<not> truthy r2_id"
    and run: "run_cutadapt H r1_id r2_id fwd_3pr_adapter rev_3pr_adapter w = (r, w')"
  have "occurs_in ''R1_cutadapt.fastq''
          [PyStr ''-a'', fwd_3pr_adapter, PyStr ''-m'', PyStr ''35'',
           PyStr ''-o'', PyStr ''/data/R1.fastq'', PyStr ''/data/R1.fastq'']
        \<longleftrightarrow> occurs_in ''R1_cutadapt.fastq'' [fwd_3pr_adapter]"
    using not_in_fixed_arguments by (simp add: occurs_in_def)
  with cutadapt_single_end_run [OF single run] not_in_fixed_arguments show ?thesis
    by (simp add: Let_def)
qed

theorem cutadapt_single_end_filename_witness:
  "truthy (PyStr ''h'') \<and> \<not> truthy PyNone
   \<and> events_since world0
        (snd (run_cutadapt host4 (PyStr ''h'') PyNone (PyStr ''AGATC'') PyNone world0)) =
       [GetLocalTempDir,
        ReadGlobalFile (PyStr ''h'') ''/tmp/job/R1.fastq'',
        DockerCall
          \<lparr>call_tool = cutadapt_image, call_work_dir = ''/tmp/job'',
           call_parameters =
             [PyStr ''-a'', PyStr ''AGATC'', PyStr ''-m'', PyStr ''35'',
              PyStr ''-o'', PyStr ''/data/R1.fastq'', PyStr ''/data/R1.fastq''],
           call_inputs = None, call_outputs = None, call_env = None, call_mock = None\<rparr>,
        WriteGlobalFile ''/tmp/job/R1_cutadapt.fastq'']
   \<and> \<not> occurs_in ''R1_cutadapt.fastq''
         [PyStr ''-a'', PyStr ''AGATC'', PyStr ''-m'', PyStr ''35'',
          PyStr ''-o'', PyStr ''/data/R1.fastq'', PyStr ''/data/R1.fastq'']"
proof -
  have a: "\<not> occurs_in ''R1_cutadapt.fastq'' [PyStr ''AGATC'']"
    by (simp add: occurs_in_def sublist_code)
  note single_end = cutadapt_single_end_filename [where H = host4 and w = world0
      and ?r1_id = "PyStr ''h''" and ?r2_id = PyNone and fwd_3pr_adapter = "PyStr ''AGATC''"
      and rev_3pr_adapter = PyNone, OF _ _ surjective_pairing]
  from single_end a show ?thesis
    by (simp add: Let_def host4_def world0_def readable_def os_path_join_def)
qed

section \<open>The unsafe flag of the GATK wrappers\<close>

lemma str_int_constants: "str_int 720000 = ''720000''" "str_int 5400000 = ''5400000''"
  by (simp_all add: str_int_def str_nat.simps digit_char_def)

lemma realigner_target_creator_command:
  "run_realigner_target_creator H cores bam bai ref ref_dict fai phase mills
     mem unsafe mock w = (r, w') \<Longrightarrow>
   command_lines w w' =
     (if list_all (readable w) [ref, fai, ref_dict, bam, bai, phase, mills]
      then [[PyStr ''-T'', PyStr ''RealignerTargetCreator'',
             PyStr ''-nt'', PyStr (py_str cores),
             PyStr ''-R'', PyStr ''/data/ref.fasta'',
             PyStr ''-I'', PyStr ''/data/sample.bam'',
             PyStr ''-known'', PyStr ''/data/phase.vcf'',
             PyStr ''-known'', PyStr ''/data/mills.vcf'',
             PyStr ''--downsampling_type'', PyStr ''NONE'',
             PyStr ''-o'', PyStr ''/data/sample.intervals'']
            @ (if unsafe then [PyStr ''-U'', PyStr ''ALLOW_SEQ_DICT_INCOMPATIBILITY''] else [])]
      else [])"
  by (auto simp add: run_realigner_target_creator_def exec split: if_splits option.splits)

lemma indel_realignment_command:
  "run_indel_realignment H intervals bam bai ref ref_dict fai phase mills
     mem unsafe mock w = (r, w') \<Longrightarrow>
   command_lines w w' =
     (if list_all (readable w) [ref, fai, ref_dict, intervals, bam, bai, phase, mills]
      then [[PyStr ''-T'', PyStr ''IndelRealigner'',
             PyStr ''-R'', PyStr ''/data/ref.fasta'',
             PyStr ''-I'', PyStr ''/data/sample.bam'',
             PyStr ''-known'', PyStr ''/data/phase.vcf'',
             PyStr ''-known'', PyStr ''/data/mills.vcf'',
             PyStr ''-targetIntervals'', PyStr ''/data/sample.intervals'',
             PyStr ''--downsampling_type'', PyStr ''NONE'',
             PyStr ''-maxReads'', PyStr ''720000'',
             PyStr ''-maxInMemory'', PyStr ''5400000'',
             PyStr ''-o'', PyStr ''/data/sample.indel.bam'']
            @ (if unsafe then [PyStr ''-U'', PyStr ''ALLOW_SEQ_DICT_INCOMPATIBILITY''] else [])]
      else [])"
  by (auto simp add: run_indel_realignment_def exec str_int_constants
      split: if_splits option.splits)

lemma base_recalibration_command:
  "run_base_recalibration H cores indel_bam indel_bai ref ref_dict fai dbsnp
     mem unsafe mock w = (r, w') \<Longrightarrow>
   command_lines w w' =
     (if list_all (readable w) [ref, fai, ref_dict, indel_bam, indel_bai, dbsnp]
      then [[PyStr ''-T'', PyStr ''BaseRecalibrator'',
             PyStr ''-nct'', PyStr (py_str cores),
             PyStr ''-R'', PyStr ''/data/ref.fasta'',
             PyStr ''-I'', PyStr ''/data/sample.indel.bam'',
             PyStr ''-knownSites'', PyStr ''/data/dbsnp.vcf'',
             PyStr ''-o'', PyStr ''/data/sample.recal.table'']
            @ (if unsafe then [PyStr ''-U'', PyStr ''ALLOW_SEQ_DICT_INCOMPATIBILITY''] else [])]
      else [])"
  by (auto simp add: run_base_recalibration_def exec split: if_splits option.splits)

lemma print_reads_command:
  "run_print_reads H cores table indel_bam indel_bai ref ref_dict fai
     mem unsafe mock w = (r, w') \<Longrightarrow>
   command_lines w w' =
     (if list_all (readable w) [ref, fai, ref_dict, table, indel_bam, indel_bai]
      then [[PyStr ''-T'', PyStr ''PrintReads'',
             PyStr ''-nct'', PyStr (py_str cores),
             PyStr ''-R'', PyStr ''/data/ref.fasta'',
             PyStr ''--emit_original_quals'',
             PyStr ''-I'', PyStr ''/data/sample.indel.bam'',
             PyStr ''-BQSR'', PyStr ''/data/sample.recal.table'',
             PyStr ''-o'', PyStr ''/data/sample.bqsr.bam'']
            @ (if unsafe then [PyStr ''-U'', PyStr ''ALLOW_SEQ_DICT_INCOMPATIBILITY''] else [])]
      else [])"
  by (auto simp add: run_print_reads_def exec split: if_splits option.splits)

text \<open>
  C4. Each of \<^verbatim>\<open>run_realigner_target_creator\<close>, \<^verbatim>\<open>run_indel_realignment\<close>,
  \<^verbatim>\<open>run_base_recalibration\<close> and \<^verbatim>\<open>run_print_reads\<close> passes one parameter list to the
  container invocation (when all its inputs can be read; otherwise it invokes nothing).
  That list is the base list of the wrapper, written out below, followed by
  \<^verbatim>\<open>'-U', 'ALLOW_SEQ_DICT_INCOMPATIBILITY'\<close> when \<^verbatim>\<open>unsafe\<close> is true and by nothing when it
  is false.
\<close>

theorem gatk_unsafe_flag:
  "command_lines w (snd (run_realigner_target_creator H cores bam bai ref ref_dict fai phase mills
                           mem unsafe mock w)) =
     (if list_all (readable w) [ref, fai, ref_dict, bam, bai, phase, mills]
      then [[PyStr ''-T'', PyStr ''RealignerTargetCreator'',
             PyStr ''-nt'', PyStr (py_str cores),
             PyStr ''-R'', PyStr ''/data/ref.fasta'',
             PyStr ''-I'', PyStr ''/data/sample.bam'',
             PyStr ''-known'', PyStr ''/data/phase.vcf'',
             PyStr ''-known'', PyStr ''/data/mills.vcf'',
             PyStr ''--downsampling_type'', PyStr ''NONE'',
             PyStr ''-o'', PyStr ''/data/sample.intervals'']
            @ (if unsafe then [PyStr ''-U'', PyStr ''ALLOW_SEQ_DICT_INCOMPATIBILITY''] else [])]
      else [])
   \<and> command_lines w (snd (run_indel_realignment H intervals bam bai ref ref_dict fai phase mills
                             mem unsafe mock w)) =
     (if list_all (readable w) [ref, fai, ref_dict, intervals, bam, bai, phase, mills]
      then [[PyStr ''-T'', PyStr ''IndelRealigner'',
             PyStr ''-R'', PyStr ''/data/ref.fasta'',
             PyStr ''-I'', PyStr ''/data/sample.bam'',
             PyStr ''-known'', PyStr ''/data/phase.vcf'',
             PyStr ''-known'', PyStr ''/data/mills.vcf'',
             PyStr ''-targetIntervals'', PyStr ''/data/sample.intervals'',
             PyStr ''--downsampling_type'', PyStr ''NONE'',
             PyStr ''-maxReads'', PyStr ''720000'',
             PyStr ''-maxInMemory'', PyStr ''5400000'',
             PyStr ''-o'', PyStr ''/data/sample.indel.bam'']
            @ (if unsafe then [PyStr ''-U'', PyStr ''ALLOW_SEQ_DICT_INCOMPATIBILITY''] else [])]
      else [])
   \<and> command_lines w (snd (run_base_recalibration H cores indel_bam indel_bai ref ref_dict fai
                             dbsnp mem unsafe mock w)) =
     (if list_all (readable w) [ref, fai, ref_dict, indel_bam, indel_bai, dbsnp]
      then [[PyStr ''-T'', PyStr ''BaseRecalibrator'',
             PyStr ''-nct'', PyStr (py_str cores),
             PyStr ''-R'', PyStr ''/data/ref.fasta'',
             PyStr ''-I'', PyStr ''/data/sample.indel.bam'',
             PyStr ''-knownSites'', PyStr ''/data/dbsnp.vcf'',
             PyStr ''-o'', PyStr ''/data/sample.recal.table'']
            @ (if unsafe then [PyStr ''-U'', PyStr ''ALLOW_SEQ_DICT_INCOMPATIBILITY''] else [])]
      else [])
   \<and> command_lines w (snd (run_print_reads H cores table indel_bam indel_bai ref ref_dict fai
                             mem unsafe mock w)) =
     (if list_all (readable w) [ref, fai, ref_dict, table, indel_bam, indel_bai]
      then [[PyStr ''-T'', PyStr ''PrintReads'',
             PyStr ''-nct'', PyStr (py_str cores),
             PyStr ''-R'', PyStr ''/data/ref.fasta'',
             PyStr ''--emit_original_quals'',
             PyStr ''-I'', PyStr ''/data/sample.indel.bam'',
             PyStr ''-BQSR'', PyStr ''/data/sample.recal.table'',
             PyStr ''-o'', PyStr ''/data/sample.bqsr.bam'']
            @ (if unsafe then [PyStr ''-U'', PyStr ''ALLOW_SEQ_DICT_INCOMPATIBILITY''] else [])]
      else [])"
  by (intro conjI realigner_target_creator_command [OF surjective_pairing]
      indel_realignment_command [OF surjective_pairing]
      base_recalibration_command [OF surjective_pairing]
      print_reads_command [OF surjective_pairing])

section \<open>Staging in \<^verbatim>\<open>run_realigner_target_creator\<close>\<close>

text \<open>
  C5. Every call of \<^verbatim>\<open>run_realigner_target_creator\<close> asks for a working directory and
  reads \<^verbatim>\<open>ref\<close> to \<^verbatim>\<open>ref.fasta\<close>, \<^verbatim>\<open>fai\<close> to \<^verbatim>\<open>ref.fasta.fai\<close>, \<^verbatim>\<open>ref_dict\<close> to
  \<^verbatim>\<open>ref.dict\<close>, \<^verbatim>\<open>bam\<close> to \<^verbatim>\<open>sample.bam\<close>, \<^verbatim>\<open>bai\<close> to \<^verbatim>\<open>sample.bam.bai\<close>, \<^verbatim>\<open>phase\<close> to
  \<^verbatim>\<open>phase.vcf\<close> and \<^verbatim>\<open>mills\<close> to \<^verbatim>\<open>mills.vcf\<close>, in this order. When the seven handles can
  be read, on any host, it has staged exactly these seven files and invokes the
  container once, declaring the seven input names and the single output
  \<^verbatim>\<open>sample.intervals\<close>. When this invocation succeeds it calls \<^verbatim>\<open>writeGlobalFile\<close> once, on
  \<^verbatim>\<open>sample.intervals\<close>, and when the tool left that file it returns the new handle under
  which the file's content was appended to the store. When the invocation fails, or the
  file is missing, the exception propagates and the store is unchanged. When a handle
  cannot be read, the call stops at the first such read, without any invocation.
\<close>

theorem realigner_target_creator_staging:
  "run_realigner_target_creator H cores bam bai ref ref_dict fai phase mills mem unsafe mock w =
     (r, w') \<Longrightarrow>
   (let work_dir = local_temp_dir H (temp_count w);
        reads =
          [ReadGlobalFile ref (os_path_join work_dir ''ref.fasta''),
           ReadGlobalFile fai (os_path_join work_dir ''ref.fasta.fai''),
           ReadGlobalFile ref_dict (os_path_join work_dir ''ref.dict''),
           ReadGlobalFile bam (os_path_join work_dir ''sample.bam''),
           ReadGlobalFile bai (os_path_join work_dir ''sample.bam.bai''),
           ReadGlobalFile phase (os_path_join work_dir ''phase.vcf''),
           ReadGlobalFile mills (os_path_join work_dir ''mills.vcf'')];
        staged =
          (disk w)
            (os_path_join work_dir ''ref.fasta'' \<mapsto> content w ref,
             os_path_join work_dir ''ref.fasta.fai'' \<mapsto> content w fai,
             os_path_join work_dir ''ref.dict'' \<mapsto> content w ref_dict,
             os_path_join work_dir ''sample.bam'' \<mapsto> content w bam,
             os_path_join work_dir ''sample.bam.bai'' \<mapsto> content w bai,
             os_path_join work_dir ''phase.vcf'' \<mapsto> content w phase,
             os_path_join work_dir ''mills.vcf'' \<mapsto> content w mills);
        invocation =
          \<lparr>call_tool = gatk_image, call_work_dir = work_dir,
           call_parameters =
             [PyStr ''-T'', PyStr ''RealignerTargetCreator'',
              PyStr ''-nt'', PyStr (py_str cores),
              PyStr ''-R'', PyStr ''/data/ref.fasta'',
              PyStr ''-I'', PyStr ''/data/sample.bam'',
              PyStr ''-known'', PyStr ''/data/phase.vcf'',
              PyStr ''-known'', PyStr ''/data/mills.vcf'',
              PyStr ''--downsampling_type'', PyStr ''NONE'',
              PyStr ''-o'', PyStr ''/data/sample.intervals'']
             @ (if unsafe then [PyStr ''-U'', PyStr ''ALLOW_SEQ_DICT_INCOMPATIBILITY''] else []),
           call_inputs = Some [''ref.fasta'', ''ref.fasta.fai'', ''ref.dict'', ''sample.bam'',
                               ''sample.bam.bai'', ''phase.vcf'', ''mills.vcf''],
           call_outputs = Some [(''sample.intervals'', PyNone)],
           call_env = Some [(''JAVA_OPTS'', ''-Xmx'' @ py_str mem)],
           call_mock = Some mock\<rparr>;
        out = os_path_join work_dir ''sample.intervals''
    in (if list_all (readable w) [ref, fai, ref_dict, bam, bai, phase, mills]
        then (case container H invocation staged of
                None \<Rightarrow>
                  events_since w w' = GetLocalTempDir # reads @ [DockerCall invocation]
                  \<and> r = Inl ToolError \<and> store w' = store w
              | Some d' \<Rightarrow>
                  events_since w w' =
                    GetLocalTempDir # reads @ [DockerCall invocation, WriteGlobalFile out]
                  \<and> (case d' out of
                         None \<Rightarrow> r = Inl (LocalFileError out) \<and> store w' = store w
                       | Some d \<Rightarrow>
                           r = Inr (PyStr (fresh_id (store w)))
                           \<and> fresh_id (store w) \<notin> set (map fst (store w))
                           \<and> store w' = store w @ [(fresh_id (store w), d)]))
        else events_since w w' =
               GetLocalTempDir #
               take (Suc (length (takeWhile (readable w)
                                    [ref, fai, ref_dict, bam, bai, phase, mills]))) reads
             \<and> r = Inl (FileStoreError
                          (hd (dropWhile (readable w)
                                 [ref, fai, ref_dict, bam, bai, phase, mills])))
             \<and> store w' = store w))"
  by (auto simp add: run_realigner_target_creator_def exec split: if_splits option.splits)


theorem realigner_target_creator_staging_witness:
  "list_all (readable world0) (replicate 7 (PyStr ''h''))
   \<and> fst rtc_run = Inr (PyStr ''ff'')
   \<and> store (snd rtc_run) = [(''h'', ''x''), (''ff'', ''out'')]
   \<and> events_since world0 (snd rtc_run) =
       [GetLocalTempDir,
        ReadGlobalFile (PyStr ''h'') ''/tmp/job/ref.fasta'',
        ReadGlobalFile (PyStr ''h'') ''/tmp/job/ref.fasta.fai'',
        ReadGlobalFile (PyStr ''h'') ''/tmp/job/ref.dict'',
        ReadGlobalFile (PyStr ''h'') ''/tmp/job/sample.bam'',
        ReadGlobalFile (PyStr ''h'') ''/tmp/job/sample.bam.bai'',
        ReadGlobalFile (PyStr ''h'') ''/tmp/job/phase.vcf'',
        ReadGlobalFile (PyStr ''h'') ''/tmp/job/mills.vcf'',
        DockerCall
          \<lparr>call_tool = gatk_image, call_work_dir = ''/tmp/job'',
           call_parameters =
             [PyStr ''-T'', PyStr ''RealignerTargetCreator'',
              PyStr ''-nt'', PyStr ''4'',
              PyStr ''-R'', PyStr ''/data/ref.fasta'',
              PyStr ''-I'', PyStr ''/data/sample.bam'',
              PyStr ''-known'', PyStr ''/data/phase.vcf'',
              PyStr ''-known'', PyStr ''/data/mills.vcf'',
              PyStr ''--downsampling_type'', PyStr ''NONE'',
              PyStr ''-o'', PyStr ''/data/sample.intervals'',
              PyStr ''-U'', PyStr ''ALLOW_SEQ_DICT_INCOMPATIBILITY''],
           call_inputs = Some [''ref.fasta'', ''ref.fasta.fai'', ''ref.dict'', ''sample.bam'',
                               ''sample.bam.bai'', ''phase.vcf'', ''mills.vcf''],
           call_outputs = Some [(''sample.intervals'', PyNone)],
           call_env = Some [(''JAVA_OPTS'', ''-Xmx10G'')],
           call_mock = Some False\<rparr>,
        WriteGlobalFile ''/tmp/job/sample.intervals'']"
proof -
  have c: "str_int 4 = ''4''"
    by (simp add: str_int_def str_nat.simps digit_char_def)
  note staging = realigner_target_creator_staging [where H = host4 and w = world0
      and cores = "PyInt 4" and bam = "PyStr ''h''" and bai = "PyStr ''h''"
      and ref = "PyStr ''h''" and ref_dict = "PyStr ''h''" and fai = "PyStr ''h''"
      and phase = "PyStr ''h''" and mills = "PyStr ''h''" and mem = "PyStr ''10G''"
      and unsafe = True and mock = False,
      OF surjective_pairing, folded rtc_run_def]
  from staging show ?thesis
    by (simp add: Let_def c host4_def world0_def readable_def fresh_id_def os_path_join_def
        numeral_eq_Suc)
qed

section \<open>Every wrapper: order of the calls, and the frame of the store\<close>

lemma cutadapt_calls:
  "run_cutadapt H r1_id r2_id fwd_3pr_adapter rev_3pr_adapter w = (r, w') \<Longrightarrow>
   call_order (events_since w w')
   \<and> length (invocations_of (events_since w w')) \<le> 1
   \<and> (\<not> isl r \<longrightarrow> length (invocations_of (events_since w w')) = 1)
   \<and> (\<exists>new. store w' = store w @ new \<and> fresh_entries (store w) new
              \<and> length new \<le> length (written_paths (events_since w w')))
   \<and> list_all (reads_from [r1_id, r2_id]) (events_since w w')"
  by (auto simp add: run_cutadapt_def exec fresh_entries_def split: if_splits option.splits)

lemma samtools_faidx_calls:
  "run_samtools_faidx H ref_id mock w = (r, w') \<Longrightarrow>
   call_order (events_since w w')
   \<and> length (invocations_of (events_since w w')) \<le> 1
   \<and> (\<not> isl r \<longrightarrow> length (invocations_of (events_since w w')) = 1)
   \<and> (\<exists>new. store w' = store w @ new \<and> fresh_entries (store w) new
              \<and> length new \<le> length (written_paths (events_since w w')))
   \<and> list_all (reads_from [ref_id]) (events_since w w')"
  by (auto simp add: run_samtools_faidx_def exec fresh_entries_def split: if_splits option.splits)

lemma samtools_index_calls:
  "run_samtools_index H bam_id w = (r, w') \<Longrightarrow>
   call_order (events_since w w')
   \<and> length (invocations_of (events_since w w')) \<le> 1
   \<and> (\<not> isl r \<longrightarrow> length (invocations_of (events_since w w')) = 1)
   \<and> (\<exists>new. store w' = store w @ new \<and> fresh_entries (store w) new
              \<and> length new \<le> length (written_paths (events_since w w')))
   \<and> list_all (reads_from [bam_id]) (events_since w w')"
  by (auto simp add: run_samtools_index_def exec fresh_entries_def split: if_splits option.splits)

lemma samtools_view_calls:
  "samtools_view H bam_id flag mock w = (r, w') \<Longrightarrow>
   call_order (events_since w w')
   \<and> length (invocations_of (events_since w w')) \<le> 1
   \<and> (\<not> isl r \<longrightarrow> length (invocations_of (events_since w w')) = 1)
   \<and> (\<exists>new. store w' = store w @ new \<and> fresh_entries (store w) new
              \<and> length new \<le> length (written_paths (events_since w w')))
   \<and> list_all (reads_from [bam_id]) (events_since w w')"
  by (auto simp add: samtools_view_def exec fresh_entries_def split: if_splits option.splits)

lemma picard_create_sequence_dictionary_calls:
  "run_picard_create_sequence_dictionary H ref_id xmx mock w = (r, w') \<Longrightarrow>
   call_order (events_since w w')
   \<and> length (invocations_of (events_since w w')) \<le> 1
   \<and> (\<not> isl r \<longrightarrow> length (invocations_of (events_since w w')) = 1)
   \<and> (\<exists>new. store w' = store w @ new \<and> fresh_entries (store w) new
              \<and> length new \<le> length (written_paths (events_since w w')))
   \<and> list_all (reads_from [ref_id]) (events_since w w')"
  by (auto simp add: run_picard_create_sequence_dictionary_def exec fresh_entries_def split: if_splits option.splits)

lemma picard_sort_sam_calls:
  "picard_sort_sam H bam_id xmx mock w = (r, w') \<Longrightarrow>
   call_order (events_since w w')
   \<and> length (invocations_of (events_since w w')) \<le> 1
   \<and> (\<not> isl r \<longrightarrow> length (invocations_of (events_since w w')) = 1)
   \<and> (\<exists>new. store w' = store w @ new \<and> fresh_entries (store w) new
              \<and> length new \<le> length (written_paths (events_since w w')))
   \<and> list_all (reads_from [bam_id]) (events_since w w')"
  by (auto simp add: picard_sort_sam_def exec fresh_entries_def split: if_splits option.splits)

lemma picard_mark_duplicates_calls:
  "picard_mark_duplicates H bam_id bai_id xmx mock w = (r, w') \<Longrightarrow>
   call_order (events_since w w')
   \<and> length (invocations_of (events_since w w')) \<le> 1
   \<and> (\<not> isl r \<longrightarrow> length (invocations_of (events_since w w')) = 1)
   \<and> (\<exists>new. store w' = store w @ new \<and> fresh_entries (store w) new
              \<and> length new \<le> length (written_paths (events_since w w')))
   \<and> list_all (reads_from [bam_id, bai_id]) (events_since w w')"
  by (auto simp add: picard_mark_duplicates_def exec fresh_entries_def split: if_splits option.splits)

lemma realigner_target_creator_calls:
  "run_realigner_target_creator H cores bam bai ref ref_dict fai phase mills mem unsafe mock w = (r, w') \<Longrightarrow>
   call_order (events_since w w')
   \<and> length (invocations_of (events_since w w')) \<le> 1
   \<and> (\<not> isl r \<longrightarrow> length (invocations_of (events_since w w')) = 1)
   \<and> (\<exists>new. store w' = store w @ new \<and> fresh_entries (store w) new
              \<and> length new \<le> length (written_paths (events_since w w')))
   \<and> list_all (reads_from [bam, bai, ref, ref_dict, fai, phase, mills]) (events_since w w')"
  by (auto simp add: run_realigner_target_creator_def exec fresh_entries_def split: if_splits option.splits)

lemma indel_realignment_calls:
  "run_indel_realignment H intervals bam bai ref ref_dict fai phase mills mem unsafe mock w = (r, w') \<Longrightarrow>
   call_order (events_since w w')
   \<and> length (invocations_of (events_since w w')) \<le> 1
   \<and> (\<not> isl r \<longrightarrow> length (invocations_of (events_since w w')) = 1)
   \<and> (\<exists>new. store w' = store w @ new \<and> fresh_entries (store w) new
              \<and> length new \<le> length (written_paths (events_since w w')))
   \<and> list_all (reads_from [intervals, bam, bai, ref, ref_dict, fai, phase, mills]) (events_since w w')"
  by (auto simp add: run_indel_realignment_def exec fresh_entries_def split: if_splits option.splits)

lemma base_recalibration_calls:
  "run_base_recalibration H cores indel_bam indel_bai ref ref_dict fai dbsnp mem unsafe mock w = (r, w') \<Longrightarrow>
   call_order (events_since w w')
   \<and> length (invocations_of (events_since w w')) \<le> 1
   \<and> (\<not> isl r \<longrightarrow> length (invocations_of (events_since w w')) = 1)
   \<and> (\<exists>new. store w' = store w @ new \<and> fresh_entries (store w) new
              \<and> length new \<le> length (written_paths (events_since w w')))
   \<and> list_all (reads_from [indel_bam, indel_bai, ref, ref_dict, fai, dbsnp]) (events_since w w')"
  by (auto simp add: run_base_recalibration_def exec fresh_entries_def split: if_splits option.splits)

lemma print_reads_calls:
  "run_print_reads H cores table indel_bam indel_bai ref ref_dict fai mem unsafe mock w = (r, w') \<Longrightarrow>
   call_order (events_since w w')
   \<and> length (invocations_of (events_since w w')) \<le> 1
   \<and> (\<not> isl r \<longrightarrow> length (invocations_of (events_since w w')) = 1)
   \<and> (\<exists>new. store w' = store w @ new \<and> fresh_entries (store w) new
              \<and> length new \<le> length (written_paths (events_since w w')))
   \<and> list_all (reads_from [table, indel_bam, indel_bai, ref, ref_dict, fai]) (events_since w w')"
  by (auto simp add: run_print_reads_def exec fresh_entries_def split: if_splits option.splits)

lemma single_run:
  "single m w = (r, w') \<Longrightarrow> \<exists>r0. m w = (r0, w') \<and> isl r0 = isl r"
  by (auto simp add: single_def bindM_def returnM_def split: prod.splits sum.splits)

lemma pair_run:
  "pair m w = (r, w') \<Longrightarrow> \<exists>r0. m w = (r0, w') \<and> isl r0 = isl r"
  by (auto simp add: pair_def bindM_def returnM_def split: prod.splits sum.splits)

text \<open>What every call of every wrapper does to the trace and to the store.\<close>

lemma wrapper_calls:
  assumes run: "run_wrapper H c w = (r, w')"
  shows "call_order (events_since w w')
   \<and> length (invocations_of (events_since w w')) \<le> 1
   \<and> (\<not> isl r \<longrightarrow> length (invocations_of (events_since w w')) = 1)
   \<and> (\<exists>new. store w' = store w @ new \<and> fresh_entries (store w) new
              \<and> length new \<le> length (written_paths (events_since w w')))
   \<and> list_all (reads_from (file_ids_of c)) (events_since w w')"
proof (cases c)
  case (Call_run_cutadapt r1_id r2_id fwd_3pr_adapter rev_3pr_adapter)
  with run have "pair (run_cutadapt H r1_id r2_id fwd_3pr_adapter rev_3pr_adapter) w = (r, w')"
    by simp
  then obtain r0 where r0: "run_cutadapt H r1_id r2_id fwd_3pr_adapter rev_3pr_adapter w = (r0, w')" and "isl r0 = isl r"
    using pair_run by blast
  with cutadapt_calls [OF r0] show ?thesis
    by (simp add: Call_run_cutadapt)
next
  case (Call_run_samtools_faidx ref_id mock)
  with run have "single (run_samtools_faidx H ref_id mock) w = (r, w')"
    by simp
  then obtain r0 where r0: "run_samtools_faidx H ref_id mock w = (r0, w')" and "isl r0 = isl r"
    using single_run by blast
  with samtools_faidx_calls [OF r0] show ?thesis
    by (simp add: Call_run_samtools_faidx)
next
  case (Call_run_samtools_index bam_id)
  with run have "single (run_samtools_index H bam_id) w = (r, w')"
    by simp
  then obtain r0 where r0: "run_samtools_index H bam_id w = (r0, w')" and "isl r0 = isl r"
    using single_run by blast
  with samtools_index_calls [OF r0] show ?thesis
    by (simp add: Call_run_samtools_index)
next
  case (Call_samtools_view bam_id flag mock)
  with run have "single (samtools_view H bam_id flag mock) w = (r, w')"
    by simp
  then obtain r0 where r0: "samtools_view H bam_id flag mock w = (r0, w')" and "isl r0 = isl r"
    using single_run by blast
  with samtools_view_calls [OF r0] show ?thesis
    by (simp add: Call_samtools_view)
next
  case (Call_run_picard_create_sequence_dictionary ref_id xmx mock)
  with run have "single (run_picard_create_sequence_dictionary H ref_id xmx mock) w = (r, w')"
    by simp
  then obtain r0 where r0: "run_picard_create_sequence_dictionary H ref_id xmx mock w = (r0, w')" and "isl r0 = isl r"
    using single_run by blast
  with picard_create_sequence_dictionary_calls [OF r0] show ?thesis
    by (simp add: Call_run_picard_create_sequence_dictionary)
next
  case (Call_picard_sort_sam bam_id xmx mock)
  with run have "pair (picard_sort_sam H bam_id xmx mock) w = (r, w')"
    by simp
  then obtain r0 where r0: "picard_sort_sam H bam_id xmx mock w = (r0, w')" and "isl r0 = isl r"
    using pair_run by blast
  with picard_sort_sam_calls [OF r0] show ?thesis
    by (simp add: Call_picard_sort_sam)
next
  case (Call_picard_mark_duplicates bam_id bai_id xmx mock)
  with run have "pair (picard_mark_duplicates H bam_id bai_id xmx mock) w = (r, w')"
    by simp
  then obtain r0 where r0: "picard_mark_duplicates H bam_id bai_id xmx mock w = (r0, w')" and "isl r0 = isl r"
    using pair_run by blast
  with picard_mark_duplicates_calls [OF r0] show ?thesis
    by (simp add: Call_picard_mark_duplicates)
next
  case (Call_run_realigner_target_creator cores bam bai ref ref_dict fai phase mills mem unsafe mock)
  with run have "single (run_realigner_target_creator H cores bam bai ref ref_dict fai phase mills mem unsafe mock) w = (r, w')"
    by simp
  then obtain r0 where r0: "run_realigner_target_creator H cores bam bai ref ref_dict fai phase mills mem unsafe mock w = (r0, w')" and "isl r0 = isl r"
    using single_run by blast
  with realigner_target_creator_calls [OF r0] show ?thesis
    by (simp add: Call_run_realigner_target_creator)
next
  case (Call_run_indel_realignment intervals bam bai ref ref_dict fai phase mills mem unsafe mock)
  with run have "pair (run_indel_realignment H intervals bam bai ref ref_dict fai phase mills mem unsafe mock) w = (r, w')"
    by simp
  then obtain r0 where r0: "run_indel_realignment H intervals bam bai ref ref_dict fai phase mills mem unsafe mock w = (r0, w')" and "isl r0 = isl r"
    using pair_run by blast
  with indel_realignment_calls [OF r0] show ?thesis
    by (simp add: Call_run_indel_realignment)
next
  case (Call_run_base_recalibration cores indel_bam indel_bai ref ref_dict fai dbsnp mem unsafe mock)
  with run have "single (run_base_recalibration H cores indel_bam indel_bai ref ref_dict fai dbsnp mem unsafe mock) w = (r, w')"
    by simp
  then obtain r0 where r0: "run_base_recalibration H cores indel_bam indel_bai ref ref_dict fai dbsnp mem unsafe mock w = (r0, w')" and "isl r0 = isl r"
    using single_run by blast
  with base_recalibration_calls [OF r0] show ?thesis
    by (simp add: Call_run_base_recalibration)
next
  case (Call_run_print_reads cores table indel_bam indel_bai ref ref_dict fai mem unsafe mock)
  with run have "pair (run_print_reads H cores table indel_bam indel_bai ref ref_dict fai mem unsafe mock) w = (r, w')"
    by simp
  then obtain r0 where r0: "run_print_reads H cores table indel_bam indel_bai ref ref_dict fai mem unsafe mock w = (r0, w')" and "isl r0 = isl r"
    using pair_run by blast
  with print_reads_calls [OF r0] show ?thesis
    by (simp add: Call_run_print_reads)
qed

text \<open>
  The paired-end call of \<^verbatim>\<open>run_cutadapt\<close> without a reverse adapter raises the
  configuration error and has invoked no container: not every call of a wrapper
  performs an invocation.
\<close>

theorem wrapper_call_order_counterexample:
  "fst cutadapt_unconfigured_run =
     Inl (ConfigurationError ''Paired end data requires a reverse 3' adapter sequence.'')
   \<and> length (invocations_of (events_since world0 (snd cutadapt_unconfigured_run))) = 0"
  by (simp add: cutadapt_unconfigured_run_def pair_def run_cutadapt_def exec host4_def
      world0_def)

text \<open>
  C6, amended. A call of a wrapper that returns has performed exactly one container
  invocation, and a call that raises at most one. In every call the sequence is ordered:
  no \<^verbatim>\<open>writeGlobalFile\<close> comes before the invocation, and after the invocation come only
  \<^verbatim>\<open>writeGlobalFile\<close> calls, so every \<^verbatim>\<open>readGlobalFile\<close> precedes it and the function returns
  only after it.
\<close>

theorem wrapper_call_order:
  "run_wrapper H c w = (r, w') \<Longrightarrow>
   call_order (events_since w w')
   \<and> length (invocations_of (events_since w w')) \<le> 1
   \<and> (\<not> isl r \<longrightarrow> length (invocations_of (events_since w w')) = 1)"
  using wrapper_calls [of H c w r w'] by blast

theorem wrapper_call_order_witness:
  "fst mark_duplicates_run = Inr [PyStr ''ff'', PyStr ''fff'']
   \<and> call_order (events_since world0 (snd mark_duplicates_run))
   \<and> length (invocations_of (events_since world0 (snd mark_duplicates_run))) = 1"
proof -
  have f: "fst mark_duplicates_run = Inr [PyStr ''ff'', PyStr ''fff'']"
    by (simp add: mark_duplicates_run_def pair_def picard_mark_duplicates_def exec host4_def
        world0_def fresh_id_def readable_def)
  note order = wrapper_call_order [where H = host4 and w = world0
      and c = "Call_picard_mark_duplicates (PyStr ''h'') (PyStr ''h'') (PyStr ''8G'') False",
      OF surjective_pairing, folded mark_duplicates_run_def]
  from order f show ?thesis
    by simp
qed

text \<open>
  C7. In every call of every wrapper the store only grows: it is the store from before
  the call followed by new entries, at most one for each \<^verbatim>\<open>writeGlobalFile\<close> call, under
  handles that were not in use; so every handle that resolved before the call resolves
  to the same content after it. Every \<^verbatim>\<open>readGlobalFile\<close> of the call reads one of the
  file-store ids among its arguments. (The other calls on the file-store object,
  \<^verbatim>\<open>getLocalTempDir\<close> and \<^verbatim>\<open>logToMaster\<close>, do not touch the entries of the store.)
\<close>

theorem wrapper_store_frame:
  "run_wrapper H c w = (r, w') \<Longrightarrow>
   (\<exists>new. store w' = store w @ new \<and> fresh_entries (store w) new
           \<and> length new \<le> length (written_paths (events_since w w')))
   \<and> (\<forall>h d. map_of (store w) h = Some d \<longrightarrow> map_of (store w') h = Some d)
   \<and> list_all (reads_from (file_ids_of c)) (events_since w w')"
proof -
  assume run: "run_wrapper H c w = (r, w')"
  from wrapper_calls [OF run] obtain new where
    new: "store w' = store w @ new" "fresh_entries (store w) new"
      "length new \<le> length (written_paths (events_since w w'))"
    and reads: "list_all (reads_from (file_ids_of c)) (events_since w w')"
    by blast
  from new(1) have "\<forall>h d. map_of (store w) h = Some d \<longrightarrow> map_of (store w') h = Some d"
    by simp
  with new reads show ?thesis by blast
qed

theorem wrapper_store_frame_witness:
  "fst indel_realignment_run = Inr [PyStr ''ff'', PyStr ''fff'']
   \<and> map_of (store world0) ''h'' = Some ''x''
   \<and> map_of (store (snd indel_realignment_run)) ''h'' = Some ''x''
   \<and> list_all (reads_from (replicate 8 (PyStr ''h''))) (events_since world0 (snd indel_realignment_run))"
proof -
  have f: "fst indel_realignment_run = Inr [PyStr ''ff'', PyStr ''fff'']"
    by (simp add: indel_realignment_run_def pair_def run_indel_realignment_def exec host4_def
        world0_def fresh_id_def readable_def)
  have h: "map_of (store world0) ''h'' = Some ''x''"
    by (simp add: world0_def)
  note frame = wrapper_store_frame [where H = host4 and w = world0
      and c = "Call_run_indel_realignment (PyStr ''h'') (PyStr ''h'') (PyStr ''h'') (PyStr ''h'')
          (PyStr ''h'') (PyStr ''h'') (PyStr ''h'') (PyStr ''h'') (PyStr ''10G'') False False",
      OF surjective_pairing, folded indel_realignment_run_def]
  from frame f h show ?thesis
    by (simp add: numeral_eq_Suc)
qed

end
